theory Spec2Isabelle
  imports Complex_Main "HOL-Library.Word"
begin

section \<open>Story video export: rendering, timing and encoding pipeline\<close>

text \<open>
  A shallow embedding of the video recorder service (\<open>generateStoryVideo\<close> and its helpers
  \<open>drawAsset\<close>, \<open>drawCinematicTransition\<close>, \<open>drawSubtitles\<close>).  JavaScript numbers are
  modelled by real numbers; where the source divides by quantities read from a decoded asset
  (\<open>drawAsset\<close>) or reads a number that the browser may report as NaN or infinite (the
  duration of a video element), the non-finite values are modelled explicitly.
  Everything the browser supplies (codec support, asset decoding, font metrics, the audio
  clock, the promise returned by \<open>play()\<close>) is a field of an environment record.
\<close>

subsection \<open>JavaScript numbers with their non-finite values\<close>

text \<open>A JavaScript number is a finite value, one of the two infinities, or NaN.  Division,
  multiplication, subtraction and the comparisons \<open>>\<close> and \<open>>=\<close> follow IEEE 754 on these four kinds
  (rounding and overflow of finite values are not modelled).\<close>

datatype jsnum = Fin real | PosInf | NegInf | NaN

fun js_div :: "jsnum \<Rightarrow> jsnum \<Rightarrow> jsnum" where
  "js_div (Fin a) (Fin b) =
     (if b \<noteq> 0 then Fin (a / b)
      else if a > 0 then PosInf else if a < 0 then NegInf else NaN)"
| "js_div (Fin a) PosInf = Fin 0"
| "js_div (Fin a) NegInf = Fin 0"
| "js_div PosInf (Fin b) = (if b \<ge> 0 then PosInf else NegInf)"
| "js_div NegInf (Fin b) = (if b \<ge> 0 then NegInf else PosInf)"
| "js_div _ _ = NaN"

fun js_mul :: "jsnum \<Rightarrow> jsnum \<Rightarrow> jsnum" where
  "js_mul (Fin a) (Fin b) = Fin (a * b)"
| "js_mul (Fin a) PosInf = (if a > 0 then PosInf else if a < 0 then NegInf else NaN)"
| "js_mul (Fin a) NegInf = (if a > 0 then NegInf else if a < 0 then PosInf else NaN)"
| "js_mul PosInf (Fin b) = (if b > 0 then PosInf else if b < 0 then NegInf else NaN)"
| "js_mul NegInf (Fin b) = (if b > 0 then NegInf else if b < 0 then PosInf else NaN)"
| "js_mul PosInf PosInf = PosInf"
| "js_mul PosInf NegInf = NegInf"
| "js_mul NegInf PosInf = NegInf"
| "js_mul NegInf NegInf = PosInf"
| "js_mul _ _ = NaN"

fun js_sub :: "jsnum \<Rightarrow> jsnum \<Rightarrow> jsnum" where
  "js_sub (Fin a) (Fin b) = Fin (a - b)"
| "js_sub (Fin a) PosInf = NegInf"
| "js_sub (Fin a) NegInf = PosInf"
| "js_sub PosInf (Fin b) = PosInf"
| "js_sub NegInf (Fin b) = NegInf"
| "js_sub PosInf NegInf = PosInf"
| "js_sub NegInf PosInf = NegInf"
| "js_sub _ _ = NaN"

fun js_gt :: "jsnum \<Rightarrow> jsnum \<Rightarrow> bool" where
  "js_gt (Fin a) (Fin b) = (a > b)"
| "js_gt (Fin a) NegInf = True"
| "js_gt PosInf (Fin b) = True"
| "js_gt PosInf NegInf = True"
| "js_gt _ _ = False"

fun js_ge :: "jsnum \<Rightarrow> jsnum \<Rightarrow> bool" where
  "js_ge (Fin a) (Fin b) = (a \<ge> b)"
| "js_ge (Fin a) NegInf = True"
| "js_ge PosInf (Fin b) = True"
| "js_ge PosInf PosInf = True"
| "js_ge PosInf NegInf = True"
| "js_ge NegInf NegInf = True"
| "js_ge _ _ = False"

subsection \<open>Data model\<close>

text \<open>A JavaScript string is a sequence of UTF-16 code units; \<open>text.split('')\<close> yields them
  one by one.\<close>

type_synonym utf16 = "16 word"
type_synonym jsstring = "utf16 list"

text \<open>\<open>type VisualAsset = HTMLImageElement | HTMLVideoElement\<close>.  The dimension attributes of
  both elements are unsigned integers; a video element also has a \<open>duration\<close>, a number of
  seconds that may be NaN or infinite.\<close>

datatype visual_asset =
    HTMLImageElement nat nat
  | HTMLVideoElement nat nat jsnum

text \<open>\<open>asset instanceof HTMLVideoElement\<close>; false for \<open>undefined\<close>.\<close>

fun isVideo :: "visual_asset option \<Rightarrow> bool" where
  "isVideo (Some (HTMLVideoElement _ _ _)) = True"
| "isVideo _ = False"

record audio_buffer =
  ab_duration :: real

record scene =
  narration :: jsstring
  imageData :: "string option"
  videoUrl :: "string option"
  transitionVideoUrl :: "string option"
  audioData :: "nat list option"

record story =
  aspectRatio :: string
  scenes :: "scene list"
  coverImage :: "string option"

datatype error = PlayRejected | ResumeRejected | DecodeError | TypeError

text \<open>Truthiness of an optional string: \<open>undefined\<close> and the empty string are falsy.\<close>

fun truthy :: "string option \<Rightarrow> bool" where
  "truthy None = False"
| "truthy (Some s) = (s \<noteq> [])"

subsection \<open>Codec and container selection\<close>

definition mp4_avc :: string where "mp4_avc = ''video/mp4; codecs=avc1,mp4a.40.2''"
definition mp4_generic :: string where "mp4_generic = ''video/mp4''"
definition webm_vp9 :: string where "webm_vp9 = ''video/webm; codecs=vp9''"
definition webm_generic :: string where "webm_generic = ''video/webm''"

definition selectMimeType :: "(string \<Rightarrow> bool) \<Rightarrow> string" where
  "selectMimeType isTypeSupported =
     (if isTypeSupported mp4_avc then mp4_avc
      else if isTypeSupported mp4_generic then mp4_generic
      else if isTypeSupported webm_vp9 then webm_vp9
      else webm_generic)"

record recorder_options =
  mimeType :: string
  videoBitsPerSecond :: nat

definition recorderOptions :: "(string \<Rightarrow> bool) \<Rightarrow> recorder_options" where
  "recorderOptions isTypeSupported =
     \<lparr> mimeType = selectMimeType isTypeSupported, videoBitsPerSecond = 8000000 \<rparr>"

subsection \<open>Scene duration\<close>

text \<open>\<open>scene.audioData\<close> is decoded inside a \<open>try\<close>; a decoder failure leaves
  \<open>audioBuffer\<close> at \<open>null\<close>.\<close>

definition prepareAudio :: "(nat list \<Rightarrow> error + audio_buffer) \<Rightarrow> scene \<Rightarrow> audio_buffer option" where
  "prepareAudio decodeAudioData sc =
     (case audioData sc of
        None \<Rightarrow> None
      | Some bytes \<Rightarrow>
          (case decodeAudioData bytes of
             Inl e \<Rightarrow> None
           | Inr buf \<Rightarrow> Some buf))"

text \<open>\<open>const duration = Math.max(audioBuffer ? audioBuffer.duration : 3.0, 2.0)\<close>\<close>

definition sceneDuration :: "audio_buffer option \<Rightarrow> real" where
  "sceneDuration audioBuffer =
     max (case audioBuffer of Some buf \<Rightarrow> ab_duration buf | None \<Rightarrow> 3.0) 2.0"

subsection \<open>Ken Burns scale\<close>

definition currentScale :: "nat \<Rightarrow> real \<Rightarrow> real" where
  "currentScale i progress =
     (let zoomDirection = (if i mod 2 = 0 then 1 else - 1 :: int);
          scaleBase = 1.1;
          scaleVar = 0.15
      in if zoomDirection = 1
         then scaleBase + (scaleVar * progress)
         else (scaleBase + scaleVar) - (scaleVar * progress))"

definition breathing :: "real \<Rightarrow> real" where
  "breathing elapsed = sin (elapsed * 2) * 0.005"

text \<open>The scale handed to \<open>drawAsset\<close> by one iteration of the scene render loop.\<close>

definition sceneScale :: "visual_asset option \<Rightarrow> nat \<Rightarrow> real \<Rightarrow> real \<Rightarrow> real" where
  "sceneScale currentAsset i elapsed dur =
     (let progress = elapsed / dur
      in if isVideo currentAsset then 1.0
         else currentScale i progress + breathing elapsed)"

subsection \<open>Canvas operations\<close>

datatype fill_style =
    Black
  | White
  | Rgba0 real
  | Gradient real real

text \<open>A line of subtitle text handed to \<open>fillText\<close>: \<open>words[0]\<close> of an empty array is
  \<open>undefined\<close>.\<close>

datatype jsline = Undefined | Str jsstring

text \<open>The calls made on the 2D context, in order.\<close>

datatype canvas_op =
    ClearRect real real real real
  | DrawImage visual_asset jsnum jsnum jsnum jsnum
  | SetFillStyle fill_style
  | FillRect real real real real
  | Save
  | Restore
  | Translate real real
  | SetGlobalAlpha real
  | SetShadowColor fill_style
  | SetShadowBlur real
  | SetShadowOffsetX real
  | SetShadowOffsetY real
  | SetFont nat
  | SetTextAlignCenter
  | SetTextBaselineBottom
  | FillText jsline real real

text \<open>The context calls made by a piece of drawing code, and the exception that ended it,
  if one did.\<close>

type_synonym drawing = "canvas_op list \<times> error option"

definition seqOps :: "drawing \<Rightarrow> drawing \<Rightarrow> drawing" where
  "seqOps d1 d2 =
     (case d1 of
        (ops1, Some e) \<Rightarrow> (ops1, Some e)
      | (ops1, None) \<Rightarrow> (ops1 @ fst d2, snd d2))"

subsection \<open>\<open>drawAsset\<close>\<close>

text \<open>\<open>isVideo ? asset.videoWidth : asset.width\<close> and likewise for the height.\<close>

fun assetWidth :: "visual_asset \<Rightarrow> nat" where
  "assetWidth (HTMLVideoElement vw vh d) = vw"
| "assetWidth (HTMLImageElement iw ih) = iw"

fun assetHeight :: "visual_asset \<Rightarrow> nat" where
  "assetHeight (HTMLVideoElement vw vh d) = vh"
| "assetHeight (HTMLImageElement iw ih) = ih"

text \<open>Reading \<open>width\<close> of \<open>undefined\<close> throws a TypeError.\<close>

definition drawAsset :: "visual_asset option \<Rightarrow> real \<Rightarrow> real \<Rightarrow> real \<Rightarrow> drawing" where
  "drawAsset asset w h scale =
     (case asset of
        None \<Rightarrow> ([], Some TypeError)
      | Some a \<Rightarrow>
         (let assetW = assetWidth a;
              assetH = assetHeight a
          in if assetW = 0 \<or> assetH = 0 then ([], None)
             else
               (let assetRatio = js_div (Fin (real assetW)) (Fin (real assetH));
                    canvasRatio = js_div (Fin w) (Fin h);
                    (renderW0, renderH0) =
                       (if js_gt assetRatio canvasRatio
                        then (js_mul (Fin h) assetRatio, Fin h)
                        else (Fin w, js_div (Fin w) assetRatio));
                    renderW = js_mul renderW0 (Fin scale);
                    renderH = js_mul renderH0 (Fin scale);
                    x = js_div (js_sub (Fin w) renderW) (Fin 2);
                    y = js_div (js_sub (Fin h) renderH) (Fin 2)
                in ([DrawImage a x y renderW renderH], None))))"

subsection \<open>\<open>drawCinematicTransition\<close>\<close>

definition drawCinematicTransition ::
  "visual_asset option \<Rightarrow> visual_asset option \<Rightarrow> real \<Rightarrow> real \<Rightarrow> real \<Rightarrow> drawing" where
  "drawCinematicTransition assetA assetB w h progress =
     (let offsetX = w * progress;
          scaleA = (if isVideo assetA then 1.0 else 1.25);
          scaleB = (if isVideo assetB then 1.0 else 1.1)
      in seqOps ([ClearRect 0 0 w h, Save, Translate (- offsetX) 0], None)
        (seqOps (drawAsset assetA w h scaleA)
        (seqOps ([SetFillStyle (Rgba0 (progress * 0.5)), FillRect 0 0 w h, Restore,
                  Save, Translate (w - offsetX) 0], None)
        (seqOps (drawAsset assetB w h scaleB)
                ([SetShadowColor Black, SetShadowBlur 50, SetShadowOffsetX (- 20),
                  FillRect (- 5) 0 5 h, Restore], None)))))"

subsection \<open>\<open>drawSubtitles\<close>\<close>

text \<open>The \<open>for\<close> loop over \<open>words[1..]\<close>: \<open>lines\<close> and \<open>currentLine\<close> are the loop state.\<close>

fun wrapLoop ::
  "(jsstring \<Rightarrow> real) \<Rightarrow> real \<Rightarrow> jsstring list \<Rightarrow> jsstring \<Rightarrow> utf16 list \<Rightarrow> jsstring list \<times> jsstring" where
  "wrapLoop measureWidth maxWidth lines currentLine [] = (lines, currentLine)"
| "wrapLoop measureWidth maxWidth lines currentLine (word # rest) =
     (if measureWidth (currentLine @ [word]) < maxWidth
      then wrapLoop measureWidth maxWidth lines (currentLine @ [word]) rest
      else wrapLoop measureWidth maxWidth (lines @ [currentLine]) [word] rest)"

definition wrapLines :: "(jsstring \<Rightarrow> real) \<Rightarrow> real \<Rightarrow> jsstring \<Rightarrow> jsline list" where
  "wrapLines measureWidth maxWidth text =
     (case text of
        [] \<Rightarrow> [Undefined]
      | w0 # rest \<Rightarrow>
          (let (lines, currentLine) = wrapLoop measureWidth maxWidth [] [w0] rest
           in map Str (lines @ [currentLine])))"

definition subtitleFontSize :: "real \<Rightarrow> real \<Rightarrow> nat" where
  "subtitleFontSize w h = (let isVertical = h > w in if isVertical then 40 else 36)"

definition subtitleMaxWidth :: "real \<Rightarrow> real" where
  "subtitleMaxWidth w = (let padding = 24 in w - (padding * 4))"

text \<open>The array \<open>lines\<close> of \<open>drawSubtitles\<close>; \<open>measureText\<close> measures with the font that was
  set just before.\<close>

definition subtitleLines :: "(nat \<Rightarrow> jsstring \<Rightarrow> real) \<Rightarrow> jsstring \<Rightarrow> real \<Rightarrow> real \<Rightarrow> jsline list" where
  "subtitleLines measureText text w h =
     wrapLines (measureText (subtitleFontSize w h)) (subtitleMaxWidth w) text"

definition drawSubtitles ::
  "(nat \<Rightarrow> jsstring \<Rightarrow> real) \<Rightarrow> jsstring \<Rightarrow> real \<Rightarrow> real \<Rightarrow> real \<Rightarrow> canvas_op list" where
  "drawSubtitles measureText text w h opacity =
     (let isVertical = h > w;
          fontSize = subtitleFontSize w h;
          padding = 24;
          bottomMargin = (if isVertical then 150 else 60);
          lines = subtitleLines measureText text w h;
          lineHeight = real fontSize * 1.4;
          totalTextHeight = real (length lines) * lineHeight;
          bgHeight = totalTextHeight + (padding * 2);
          bgY = h - bgHeight - bottomMargin
      in [SetFont fontSize, SetTextAlignCenter, SetTextBaselineBottom,
          Save, SetGlobalAlpha opacity,
          SetFillStyle (Gradient bgY (h - bottomMargin)),
          FillRect 0 (h - bgHeight - bottomMargin - 20) w (bgHeight + 40),
          SetFillStyle White, SetShadowColor (Rgba0 0.8), SetShadowBlur 4,
          SetShadowOffsetX 2, SetShadowOffsetY 2]
         @ map (\<lambda>(index, line).
                  FillText line (w / 2)
                    (h - bottomMargin - padding - (real (length lines - 1 - index) * lineHeight)))
               (enumerate 0 lines)
         @ [Restore])"

subsection \<open>The environment and the trace of an export\<close>

text \<open>What the browser decides: codec support, the outcome of loading and decoding assets
  (\<open>loadVideo\<close> resolves to \<open>null\<close> on error or after five seconds, \<open>loadImage\<close> and the cover
  always resolve to an image element, possibly an empty one), whether the audio context starts
  suspended, whether \<open>resume()\<close> and \<open>play()\<close> reject, the font metrics, and the sizes of the
  data the recorder hands to \<open>ondataavailable\<close>.\<close>

record env =
  isTypeSupported :: "string \<Rightarrow> bool"
  loadVideo :: "string \<Rightarrow> (nat \<times> nat \<times> jsnum) option"
  loadImage :: "string option \<Rightarrow> nat \<times> nat"
  loadCover :: "string \<Rightarrow> nat \<times> nat"
  decodeAudioData :: "nat list \<Rightarrow> error + audio_buffer"
  suspended :: bool
  resume :: "error option"
  play :: "visual_asset \<Rightarrow> error option"
  measureText :: "nat \<Rightarrow> jsstring \<Rightarrow> real"
  recorded :: "nat list"

text \<open>The status text of a progress report is a fixed label with a running number.\<close>

datatype phase = LoadingCover | LoadingAsset nat | RecordingScene nat | Finishing

datatype event =
    OnProgress real phase
  | Draw "canvas_op list"
  | Wait real
  | SourceStart audio_buffer
  | SourceStop
  | SetCurrentTime0 visual_asset
  | Play visual_asset
  | Pause visual_asset
  | Resume
  | RecorderStart recorder_options
  | RecorderStop
  | AudioClose
  | ConsoleError error

text \<open>A piece of the asynchronous function either completes with a value, throws, or is
  still waiting in a render loop when the observed readings of \<open>audioCtx.currentTime\<close> end.\<close>

datatype 'a outcome = Done 'a | Threw error | Stalled

type_synonym 'a run = "event list \<times> 'a outcome"

definition andThen :: "'a run \<Rightarrow> ('a \<Rightarrow> 'b run) \<Rightarrow> 'b run" where
  "andThen r k =
     (case r of
        (evs, Done a) \<Rightarrow> (evs @ fst (k a), snd (k a))
      | (evs, Threw e) \<Rightarrow> (evs, Threw e)
      | (evs, Stalled) \<Rightarrow> (evs, Stalled))"

definition emit :: "event list \<Rightarrow> unit run" where
  "emit evs = (evs, Done ())"

text \<open>One read of \<open>audioCtx.currentTime\<close>.\<close>

definition readClock :: "real list \<Rightarrow> (real \<times> real list) run" where
  "readClock clock = (case clock of [] \<Rightarrow> ([], Stalled) | now # rest \<Rightarrow> ([], Done (now, rest)))"

text \<open>\<open>await asset.play()\<close> after \<open>asset.currentTime = 0\<close>.\<close>

definition awaitPlay :: "env \<Rightarrow> visual_asset \<Rightarrow> unit run" where
  "awaitPlay e asset =
     ([SetCurrentTime0 asset, Play asset],
      case play e asset of None \<Rightarrow> Done () | Some err \<Rightarrow> Threw err)"

definition FRAME_INTERVAL :: real where
  "FRAME_INTERVAL = 1000 / 30"

text \<open>The five \<open>while (true)\<close> loops share one shape: read the clock, compute the time since
  the segment started, leave when the stop test holds, otherwise draw one frame and wait for
  \<open>FRAME_INTERVAL\<close>.  The stop test and the frame are the arguments.\<close>

fun renderLoop :: "(real \<Rightarrow> bool) \<Rightarrow> (real \<Rightarrow> drawing) \<Rightarrow> real \<Rightarrow> real list \<Rightarrow> (real list) run" where
  "renderLoop stop frame startTime [] = ([], Stalled)"
| "renderLoop stop frame startTime (now # clock) =
     (let elapsed = now - startTime
      in if stop elapsed then ([], Done clock)
         else (case frame elapsed of
                 (ops, Some err) \<Rightarrow> ([Draw ops], Threw err)
               | (ops, None) \<Rightarrow>
                   (let r = renderLoop stop frame startTime clock
                    in (Draw ops # Wait FRAME_INTERVAL # fst r, snd r))))"

definition fillBlack :: "real \<Rightarrow> real \<Rightarrow> event" where
  "fillBlack w h = Draw [SetFillStyle Black, FillRect 0 0 w h]"

subsection \<open>Asset loading\<close>

definition loadSceneAsset :: "env \<Rightarrow> scene \<Rightarrow> visual_asset" where
  "loadSceneAsset e sc =
     (let img = (case loadImage e (imageData sc) of (iw, ih) \<Rightarrow> HTMLImageElement iw ih)
      in case videoUrl sc of
           None \<Rightarrow> img
         | Some url \<Rightarrow>
             if url = [] then img
             else (case loadVideo e url of
                     Some (vw, vh, d) \<Rightarrow> HTMLVideoElement vw vh d
                   | None \<Rightarrow> img))"

definition loadTransitionAsset :: "env \<Rightarrow> scene \<Rightarrow> visual_asset option" where
  "loadTransitionAsset e sc =
     (case transitionVideoUrl sc of
        None \<Rightarrow> None
      | Some url \<Rightarrow>
          if url = [] then None
          else (case loadVideo e url of
                  Some (vw, vh, d) \<Rightarrow> Some (HTMLVideoElement vw vh d)
                | None \<Rightarrow> None))"

text \<open>The loading loop over \<open>i = 0, ..., story.scenes.length - 1\<close>; the two arrays grow by
  one entry per scene.\<close>

fun loadAssets ::
  "env \<Rightarrow> scene list \<Rightarrow> nat list \<Rightarrow> visual_asset list \<Rightarrow> visual_asset option list
     \<Rightarrow> event list \<times> visual_asset list \<times> visual_asset option list" where
  "loadAssets e scs [] visualAssets transitionAssets = ([], visualAssets, transitionAssets)"
| "loadAssets e scs (i # is) visualAssets transitionAssets =
     (let sc = scs ! i;
          r = loadAssets e scs is (visualAssets @ [loadSceneAsset e sc])
                (transitionAssets @ [loadTransitionAsset e sc])
      in (OnProgress ((real i / real (length scs)) * 20) (LoadingAsset (i + 1)) # fst r, snd r))"

text \<open>Reading an array element: \<open>undefined\<close> beyond the end.\<close>

definition arrayGet :: "'a list \<Rightarrow> nat \<Rightarrow> 'a option" where
  "arrayGet xs i = (if i < length xs then Some (xs ! i) else None)"

subsection \<open>Intro, scene, transition and outro segments\<close>

definition introFrame :: "visual_asset \<Rightarrow> real \<Rightarrow> real \<Rightarrow> real \<Rightarrow> drawing" where
  "introFrame coverAsset w h elapsed =
     (let introDuration = 3.0;
          progress = elapsed / introDuration;
          scale = 1.0 + (progress * 0.05);
          opacity0 = (if elapsed < 0.5 then elapsed / 0.5 else 1);
          opacity = (if elapsed > introDuration - 0.5 then (introDuration - elapsed) / 0.5
                     else opacity0)
      in seqOps ([ClearRect 0 0 w h], None)
        (seqOps (drawAsset (Some coverAsset) w h scale)
                (if opacity < 1 then [SetFillStyle (Rgba0 (1 - opacity)), FillRect 0 0 w h] else [],
                 None)))"

definition introSegment :: "visual_asset \<Rightarrow> real \<Rightarrow> real \<Rightarrow> real list \<Rightarrow> (real list) run" where
  "introSegment coverAsset w h clock =
     andThen (readClock clock) (\<lambda>(introStartTime, clock).
     andThen (renderLoop (\<lambda>elapsed. elapsed \<ge> 3.0) (introFrame coverAsset w h)
                introStartTime clock) (\<lambda>clock.
     ([fillBlack w h, Wait 300], Done clock)))"

definition sceneFrame ::
  "env \<Rightarrow> real \<Rightarrow> real \<Rightarrow> scene \<Rightarrow> nat \<Rightarrow> visual_asset option \<Rightarrow> real \<Rightarrow> real \<Rightarrow> drawing" where
  "sceneFrame e w h sc i currentAsset dur elapsed =
     (let textOpacity = min (elapsed * 2) 1
      in seqOps ([ClearRect 0 0 w h], None)
        (seqOps (drawAsset currentAsset w h (sceneScale currentAsset i elapsed dur))
                (drawSubtitles (measureText e) (narration sc) w h textOpacity, None)))"

definition easeInOutCubic :: "real \<Rightarrow> real" where
  "easeInOutCubic tProgress =
     (if tProgress < 0.5
      then 4 * tProgress * tProgress * tProgress
      else 1 - ((- 2 * tProgress + 2) ^ 3) / 2)"

text \<open>\<open>const tDuration = transitionVideo.duration || 2.0\<close>: the numbers 0 and NaN are falsy,
  and so is the \<open>undefined\<close> read from an element without that property.\<close>

fun clipDuration :: "visual_asset \<Rightarrow> jsnum" where
  "clipDuration (HTMLVideoElement vw vh (Fin d)) = (if d = 0 then Fin 2.0 else Fin d)"
| "clipDuration (HTMLVideoElement vw vh NaN) = Fin 2.0"
| "clipDuration (HTMLVideoElement vw vh PosInf) = PosInf"
| "clipDuration (HTMLVideoElement vw vh NegInf) = NegInf"
| "clipDuration (HTMLImageElement iw ih) = Fin 2.0"

definition transitionDuration :: real where
  "transitionDuration = 1.0"

definition clipTransition ::
  "env \<Rightarrow> real \<Rightarrow> real \<Rightarrow> visual_asset \<Rightarrow> real list \<Rightarrow> (real list) run" where
  "clipTransition e w h transitionVideo clock =
     (let tDuration = clipDuration transitionVideo
      in andThen (readClock clock) (\<lambda>(tStartTime, clock).
         andThen (awaitPlay e transitionVideo) (\<lambda>_.
         renderLoop (\<lambda>tElapsed. js_ge (Fin tElapsed) tDuration)
           (\<lambda>tElapsed. drawAsset (Some transitionVideo) w h 1.0) tStartTime clock)))"

definition canvasTransition ::
  "real \<Rightarrow> real \<Rightarrow> visual_asset option \<Rightarrow> visual_asset \<Rightarrow> real list \<Rightarrow> (real list) run" where
  "canvasTransition w h currentAsset nextAsset clock =
     andThen (readClock clock) (\<lambda>(transStartTime, clock).
     andThen (emit (if isVideo (Some nextAsset)
                    then [SetCurrentTime0 nextAsset, Play nextAsset] else [])) (\<lambda>_.
     renderLoop (\<lambda>tElapsed. tElapsed / transitionDuration \<ge> 1)
       (\<lambda>tElapsed. drawCinematicTransition currentAsset (Some nextAsset) w h
                      (easeInOutCubic (tElapsed / transitionDuration)))
       transStartTime clock))"

definition transitionSegment ::
  "env \<Rightarrow> real \<Rightarrow> real \<Rightarrow> visual_asset option \<Rightarrow> visual_asset option \<Rightarrow> visual_asset option
     \<Rightarrow> real list \<Rightarrow> (real list) run" where
  "transitionSegment e w h currentAsset nextAsset transitionVideo clock =
     (case nextAsset of
        None \<Rightarrow> ([], Done clock)
      | Some next \<Rightarrow>
          andThen (case transitionVideo of
                     Some tv \<Rightarrow> clipTransition e w h tv clock
                   | None \<Rightarrow> canvasTransition w h currentAsset next clock) (\<lambda>clock.
          (case currentAsset of
             Some cur \<Rightarrow> if isVideo currentAsset then [Pause cur] else []
           | None \<Rightarrow> [],
           Done clock)))"

text \<open>One iteration of the main story loop.\<close>

definition sceneIteration ::
  "env \<Rightarrow> real \<Rightarrow> real \<Rightarrow> scene list \<Rightarrow> visual_asset list \<Rightarrow> visual_asset option list \<Rightarrow> nat
     \<Rightarrow> real list \<Rightarrow> (real list) run" where
  "sceneIteration e w h scs visualAssets transitionAssets i clock =
     (let sc = scs ! i;
          currentAsset = arrayGet visualAssets i;
          nextAsset = arrayGet visualAssets (i + 1);
          transitionVideo = (case arrayGet transitionAssets i of Some tv \<Rightarrow> tv | None \<Rightarrow> None);
          audioBuffer = prepareAudio (decodeAudioData e) sc;
          dur = sceneDuration audioBuffer
      in andThen (emit ([OnProgress (20 + (real i / real (length scs)) * 70) (RecordingScene (i + 1))]
                        @ (case audioBuffer of Some buf \<Rightarrow> [SourceStart buf] | None \<Rightarrow> []))) (\<lambda>_.
         andThen (case currentAsset of
                    Some cur \<Rightarrow> if isVideo currentAsset then awaitPlay e cur else emit []
                  | None \<Rightarrow> emit []) (\<lambda>_.
         andThen (readClock clock) (\<lambda>(sceneStartTime, clock).
         andThen (renderLoop (\<lambda>elapsed. elapsed \<ge> dur) (sceneFrame e w h sc i currentAsset dur)
                    sceneStartTime clock) (\<lambda>clock.
         andThen (emit (case audioBuffer of Some buf \<Rightarrow> [SourceStop] | None \<Rightarrow> [])) (\<lambda>_.
         transitionSegment e w h currentAsset nextAsset transitionVideo clock))))))"

fun mainLoop ::
  "env \<Rightarrow> real \<Rightarrow> real \<Rightarrow> scene list \<Rightarrow> visual_asset list \<Rightarrow> visual_asset option list \<Rightarrow> nat list
     \<Rightarrow> real list \<Rightarrow> (real list) run" where
  "mainLoop e w h scs visualAssets transitionAssets [] clock = ([], Done clock)"
| "mainLoop e w h scs visualAssets transitionAssets (i # is) clock =
     andThen (sceneIteration e w h scs visualAssets transitionAssets i clock)
       (mainLoop e w h scs visualAssets transitionAssets is)"

definition fadeDuration :: real where
  "fadeDuration = 1.5"

definition outroFrame :: "visual_asset option \<Rightarrow> real \<Rightarrow> real \<Rightarrow> real \<Rightarrow> drawing" where
  "outroFrame lastAsset w h tElapsed =
     (let progress = tElapsed / fadeDuration
      in seqOps (if isVideo lastAsset
                 then drawAsset lastAsset w h 1.0
                 else drawAsset lastAsset w h (1.25 + (progress * 0.05)))
                ([SetFillStyle (Rgba0 progress), FillRect 0 0 w h], None))"

definition outroSegment :: "real \<Rightarrow> real \<Rightarrow> visual_asset list \<Rightarrow> real list \<Rightarrow> (real list) run" where
  "outroSegment w h visualAssets clock =
     (let lastAsset = (if visualAssets = [] then None
                       else arrayGet visualAssets (length visualAssets - 1))
      in andThen (emit [OnProgress 99 Finishing]) (\<lambda>_.
         andThen (readClock clock) (\<lambda>(fadeStartTime, clock).
         andThen (renderLoop (\<lambda>tElapsed. tElapsed / fadeDuration \<ge> 1) (outroFrame lastAsset w h)
                    fadeStartTime clock) (\<lambda>clock.
         ([fillBlack w h, Wait 500], Done clock)))))"

subsection \<open>\<open>generateStoryVideo\<close>\<close>

record blob =
  parts :: "nat list"
  blobType :: string

text \<open>The body of the \<open>try\<close> block.\<close>

definition exportBody :: "env \<Rightarrow> story \<Rightarrow> string option \<Rightarrow> real \<Rightarrow> real \<Rightarrow> real list \<Rightarrow> (real list) run" where
  "exportBody e st customCover w h clock =
     (let coverB64 = (if truthy customCover then customCover else coverImage st);
          coverAsset = (case coverB64 of
                          Some b64 \<Rightarrow> if truthy coverB64
                                      then Some (case loadCover e b64 of (iw, ih) \<Rightarrow> HTMLImageElement iw ih)
                                      else None
                        | None \<Rightarrow> None);
          n = length (scenes st);
          loaded = loadAssets e (scenes st) [0..<n] [] [];
          visualAssets = fst (snd loaded);
          transitionAssets = snd (snd loaded)
      in andThen (emit ((if truthy coverB64 then [OnProgress 0 LoadingCover] else []) @ fst loaded)) (\<lambda>_.
         andThen (if suspended e
                  then ([Resume], case resume e of None \<Rightarrow> Done () | Some err \<Rightarrow> Threw err)
                  else emit []) (\<lambda>_.
         andThen (case coverAsset of
                    Some cover \<Rightarrow> introSegment cover w h clock
                  | None \<Rightarrow> ([], Done clock)) (\<lambda>clock.
         andThen (mainLoop e w h (scenes st) visualAssets transitionAssets [0..<n] clock) (\<lambda>clock.
         outroSegment w h visualAssets clock)))))"

definition canvasWidth :: "story \<Rightarrow> real" where
  "canvasWidth st = (let isVertical = (aspectRatio st = ''9:16'') in if isVertical then 720 else 1280)"

definition canvasHeight :: "story \<Rightarrow> real" where
  "canvasHeight st = (let isVertical = (aspectRatio st = ''9:16'') in if isVertical then 1280 else 720)"

definition generateStoryVideo :: "env \<Rightarrow> story \<Rightarrow> string option \<Rightarrow> real list \<Rightarrow> blob run" where
  "generateStoryVideo e st customCover clock =
     (let width = canvasWidth st;
          height = canvasHeight st;
          options = recorderOptions (isTypeSupported e);
          chunks = filter (\<lambda>size. size > 0) (recorded e);
          body = exportBody e st customCover width height clock;
          setup = [fillBlack width height, RecorderStart options]
      in case snd body of
           Done _ \<Rightarrow>
             (setup @ fst body @ [RecorderStop, AudioClose],
              Done \<lparr> parts = chunks, blobType = takeWhile (\<lambda>c. c \<noteq> CHR '';'') (mimeType options) \<rparr>)
         | Threw err \<Rightarrow>
             (setup @ fst body @ [ConsoleError err, RecorderStop, AudioClose], Threw err)
         | Stalled \<Rightarrow> (setup @ fst body, Stalled))"

subsection \<open>Observations on a trace\<close>

text \<open>The percentages handed to \<open>onProgress\<close>, and the frames drawn, in order.\<close>

fun progressValues :: "event list \<Rightarrow> real list" where
  "progressValues [] = []"
| "progressValues (OnProgress p ph # evs) = p # progressValues evs"
| "progressValues (ev # evs) = progressValues evs"

fun drawn :: "event list \<Rightarrow> canvas_op list list" where
  "drawn [] = []"
| "drawn (Draw ops # evs) = ops # drawn evs"
| "drawn (ev # evs) = drawn evs"

text \<open>The lines handed to \<open>fillText\<close>, in order, and the text \<open>fillText\<close> draws for a line:
  its argument is converted to a string, which for \<open>undefined\<close> is the nine letters of that
  word.\<close>

fun textLines :: "canvas_op list \<Rightarrow> jsline list" where
  "textLines [] = []"
| "textLines (FillText line x y # ops) = line # textLines ops"
| "textLines (op # ops) = textLines ops"

fun lineText :: "jsline \<Rightarrow> jsstring" where
  "lineText (Str s) = s"
| "lineText Undefined = [0x75, 0x6E, 0x64, 0x65, 0x66, 0x69, 0x6E, 0x65, 0x64]"

text \<open>The reports of a complete run on \<open>n\<close> scenes, as the specification lists them: the cover
  report if there is a cover, the loading reports, the main-loop reports, the finalization
  report.\<close>

definition expectedProgress :: "bool \<Rightarrow> nat \<Rightarrow> real list" where
  "expectedProgress cover n =
     (if cover then [0] else [])
     @ map (\<lambda>i. (real i / real n) * 20) [0..<n]
     @ map (\<lambda>i. 20 + (real i / real n) * 70) [0..<n]
     @ [99]"

subsection \<open>Concrete inputs\<close>

text \<open>A scene with narration audio, a decoder that yields a buffer of a given duration, and
  font metrics with one advance width for every code unit.\<close>

definition audioScene :: scene where
  "audioScene = \<lparr> narration = [], imageData = None, videoUrl = None,
      transitionVideoUrl = None, audioData = Some [1, 2, 3] \<rparr>"

definition decodeTo :: "real \<Rightarrow> nat list \<Rightarrow> error + audio_buffer" where
  "decodeTo d bytes = Inr \<lparr> ab_duration = d \<rparr>"

definition fixedPitch :: "real \<Rightarrow> nat \<Rightarrow> jsstring \<Rightarrow> real" where
  "fixedPitch advance fontSize s = advance * real (length s)"

text \<open>A scene with a still image and nothing else, an environment in which everything loads
  and plays, and the story of that one scene.\<close>

definition imageScene :: scene where
  "imageScene = \<lparr> narration = [], imageData = Some ''iVBORw0KGgo='', videoUrl = None,
      transitionVideoUrl = None, audioData = None \<rparr>"

definition plainEnv :: env where
  "plainEnv = \<lparr> isTypeSupported = (\<lambda>t. t = ''video/mp4''),
      loadVideo = (\<lambda>url. Some (1280, 720, Fin 4)),
      loadImage = (\<lambda>b64. (1024, 1024)),
      loadCover = (\<lambda>b64. (1024, 1024)),
      decodeAudioData = decodeTo 1,
      suspended = False,
      resume = None,
      play = (\<lambda>a. None),
      measureText = fixedPitch 36,
      recorded = [0, 4096] \<rparr>"

definition oneSceneStory :: story where
  "oneSceneStory = \<lparr> aspectRatio = ''16:9'', scenes = [imageScene], coverImage = None \<rparr>"

text \<open>A scene with a video clip and a transition clip, an environment in which \<open>play()\<close>
  rejects, an environment in which no video loads, and the story of that one scene.\<close>

definition clipScene :: scene where
  "clipScene = \<lparr> narration = [], imageData = Some ''iVBORw0KGgo='', videoUrl = Some ''blob:clip1'',
      transitionVideoUrl = Some ''blob:transition1'', audioData = None \<rparr>"

definition rejectingEnv :: env where
  "rejectingEnv = plainEnv \<lparr> play := (\<lambda>a. Some PlayRejected) \<rparr>"

definition offlineEnv :: env where
  "offlineEnv = plainEnv \<lparr> loadVideo := (\<lambda>url. None) \<rparr>"

definition clipStory :: story where
  "clipStory = \<lparr> aspectRatio = ''16:9'', scenes = [clipScene], coverImage = None \<rparr>"

section \<open>Properties\<close>

text \<open>
  C6. The container and codec are the first supported entry of the fixed preference list
  MP4 with H.264 and AAC, generic MP4, WebM with VP9; generic WebM is taken without being
  tested when none of them is supported.  The recorder's video bitrate is 8 Mbps, and every
  export starts its recorder with these options, right after painting the canvas black.
\<close>

theorem C6_codec_preference_order:
  "selectMimeType supported =
     (case List.find supported [mp4_avc, mp4_generic, webm_vp9] of
        Some m \<Rightarrow> m
      | None \<Rightarrow> webm_generic)
   \<and> selectMimeType supported \<in> {mp4_avc, mp4_generic, webm_vp9, webm_generic}
   \<and> mimeType (recorderOptions supported) = selectMimeType supported
   \<and> videoBitsPerSecond (recorderOptions supported) = 8 * 10 ^ 6
   \<and> take 2 (fst (generateStoryVideo e st cover clock))
       = [fillBlack (canvasWidth st) (canvasHeight st),
          RecorderStart (recorderOptions (isTypeSupported e))]"
  by (cases "snd (exportBody e st cover (canvasWidth st) (canvasHeight st) clock)")
     (simp_all add: selectMimeType_def recorderOptions_def generateStoryVideo_def Let_def)


subsection \<open>Scene duration\<close>

text \<open>
  C1 as stated fails: a decodable narration of 2.5 seconds gives a scene of 2.5 seconds,
  not of max(2.5, 3.0) = 3.0 seconds.
\<close>

theorem C1_counterexample:
  "prepareAudio (decodeTo (5/2)) audioScene = Some \<lparr> ab_duration = 5/2 \<rparr>
   \<and> sceneDuration (prepareAudio (decodeTo (5/2)) audioScene) = 5/2
   \<and> sceneDuration (prepareAudio (decodeTo (5/2)) audioScene) \<noteq> max (5/2) 3.0"
  by (simp add: prepareAudio_def sceneDuration_def audioScene_def decodeTo_def)

text \<open>
  C1, amended.  The scene lasts max(audioDuration, 2.0) seconds when the scene has narration
  audio that decodes (which is max(audioDuration, 3.0) whenever the audio lasts at least
  3.0 seconds), exactly 3.0 seconds when it has no audio or decoding fails, and never less
  than 2.0 seconds.
\<close>

theorem C1_scene_duration:
  "sceneDuration (prepareAudio dec sc) =
     (case audioData sc of
        None \<Rightarrow> 3.0
      | Some bytes \<Rightarrow> (case dec bytes of Inl err \<Rightarrow> 3.0 | Inr buf \<Rightarrow> max (ab_duration buf) 2.0))
   \<and> sceneDuration (prepareAudio dec sc) \<ge> 2.0
   \<and> (case prepareAudio dec sc of
        Some buf \<Rightarrow> 3.0 \<le> ab_duration buf \<longrightarrow>
                    sceneDuration (prepareAudio dec sc) = max (ab_duration buf) 3.0
      | None \<Rightarrow> True)"
  by (auto simp add: prepareAudio_def sceneDuration_def split: option.splits sum.splits)

text \<open>Audio of 1.0 second, audio of 4.2 seconds, and no audio.\<close>

theorem C1_scene_duration_witness:
  "sceneDuration (prepareAudio (decodeTo 1) audioScene) = 2
   \<and> sceneDuration (prepareAudio (decodeTo (21/5)) audioScene) = max (21/5) 3
   \<and> sceneDuration (prepareAudio (decodeTo 1) (audioScene\<lparr>audioData := None\<rparr>)) = 3"
  using C1_scene_duration [of "decodeTo 1" audioScene]
        C1_scene_duration [of "decodeTo (21/5)" audioScene]
        C1_scene_duration [of "decodeTo 1" "audioScene\<lparr>audioData := None\<rparr>"]
  by (simp add: audioScene_def decodeTo_def prepareAudio_def)

subsection \<open>Ken Burns scale\<close>

lemma abs_breathing: "\<bar>breathing elapsed\<bar> \<le> 0.005"
proof -
  have "\<bar>sin (elapsed * 2)\<bar> \<le> 1" by (rule abs_sin_le_one)
  then show ?thesis by (simp add: breathing_def abs_mult)
qed

subsection \<open>Cover fit\<close>

lemma drawAsset_zero:
  "assetWidth a = 0 \<or> assetHeight a = 0 \<Longrightarrow> drawAsset (Some a) w h s = ([], None)"
  by (auto simp add: drawAsset_def Let_def)

lemma drawAsset_value:
  assumes "0 < assetWidth a" "0 < assetHeight a"
  shows "drawAsset (Some a) w h s =
           (let r = real (assetWidth a) / real (assetHeight a);
                renderW0 = (if js_gt (Fin r) (js_div (Fin w) (Fin h)) then h * r else w);
                renderH0 = (if js_gt (Fin r) (js_div (Fin w) (Fin h)) then h else w / r)
            in ([DrawImage a (Fin ((w - renderW0 * s) / 2)) (Fin ((h - renderH0 * s) / 2))
                   (Fin (renderW0 * s)) (Fin (renderH0 * s))], None))"
  using assms by (simp add: drawAsset_def Let_def)

lemma drawAsset_positive:
  assumes "0 < assetWidth a" "0 < assetHeight a"
  shows "\<exists>x y renderW renderH.
           drawAsset (Some a) w h s = ([DrawImage a (Fin x) (Fin y) (Fin renderW) (Fin renderH)], None)
           \<and> x + renderW / 2 = w / 2 \<and> y + renderH / 2 = h / 2"
  unfolding drawAsset_value [OF assms] Let_def
  by (intro exI conjI, rule refl) (simp_all add: field_simps)

text \<open>
  C9.  When the asset's width or height is 0, \<open>drawAsset\<close> returns without a single call on
  the context.  When both are positive, the aspect-ratio division has a non-zero divisor and
  a non-zero result (the divisor of the cover-fit division), and the one \<open>drawImage\<close> call
  gets a finite rectangle whose centre is the centre of the canvas.
\<close>

theorem C9_drawAsset_zero_guard:
  "(assetWidth a = 0 \<or> assetHeight a = 0 \<longrightarrow> drawAsset (Some a) w h s = ([], None))
   \<and> (0 < assetWidth a \<and> 0 < assetHeight a \<longrightarrow>
        js_div (Fin (real (assetWidth a))) (Fin (real (assetHeight a)))
          = Fin (real (assetWidth a) / real (assetHeight a))
        \<and> real (assetWidth a) / real (assetHeight a) \<noteq> 0
        \<and> (\<exists>x y renderW renderH.
             drawAsset (Some a) w h s
               = ([DrawImage a (Fin x) (Fin y) (Fin renderW) (Fin renderH)], None)
             \<and> x + renderW / 2 = w / 2 \<and> y + renderH / 2 = h / 2))"
  using drawAsset_zero [of a w h s] drawAsset_positive [of a w h s] by simp

text \<open>An image without width, a video without height, and a 4:3 image on the wide canvas.\<close>

theorem C9_drawAsset_zero_guard_witness:
  "drawAsset (Some (HTMLImageElement 0 600)) 1280 720 1.1 = ([], None)
   \<and> drawAsset (Some (HTMLVideoElement 640 0 (Fin 4))) 1280 720 1 = ([], None)
   \<and> (\<exists>x y renderW renderH.
        drawAsset (Some (HTMLImageElement 4 3)) 1280 720 1
          = ([DrawImage (HTMLImageElement 4 3) (Fin x) (Fin y) (Fin renderW) (Fin renderH)], None)
        \<and> x + renderW / 2 = 1280 / 2 \<and> y + renderH / 2 = 720 / 2)"
  using C9_drawAsset_zero_guard [of "HTMLImageElement 0 600" 1280 720 "1.1"]
        C9_drawAsset_zero_guard [of "HTMLVideoElement 640 0 (Fin 4)" 1280 720 1]
        C9_drawAsset_zero_guard [of "HTMLImageElement 4 3" 1280 720 1]
  by simp

subsection \<open>Subtitle wrapping\<close>

lemma wrapLoop_concat:
  "concat (fst (wrapLoop m mw lines cur rest) @ [snd (wrapLoop m mw lines cur rest)])
     = concat lines @ cur @ rest"
  by (induction rest arbitrary: lines cur) simp_all

lemma wrapLoop_nonempty:
  assumes "cur \<noteq> []" and "\<forall>l \<in> set lines. l \<noteq> []"
  shows "(\<forall>l \<in> set (fst (wrapLoop m mw lines cur rest)). l \<noteq> [])
         \<and> snd (wrapLoop m mw lines cur rest) \<noteq> []"
  using assms
proof (induction rest arbitrary: lines cur)
  case Nil
  then show ?case by simp
next
  case (Cons word rest)
  show ?case
  proof (cases "m (cur @ [word]) < mw")
    case True
    have "cur @ [word] \<noteq> []" by simp
    from Cons.IH [OF this Cons.prems(2)] True show ?thesis by simp
  next
    case False
    have "[word] \<noteq> []" by simp
    moreover have "\<forall>l \<in> set (lines @ [cur]). l \<noteq> []" using Cons.prems by simp
    ultimately have "(\<forall>l \<in> set (fst (wrapLoop m mw (lines @ [cur]) [word] rest)). l \<noteq> [])
         \<and> snd (wrapLoop m mw (lines @ [cur]) [word] rest) \<noteq> []"
      by (rule Cons.IH)
    with False show ?thesis by simp
  qed
qed

lemma wrapLoop_fits:
  assumes "\<forall>l \<in> set lines. 2 \<le> length l \<longrightarrow> m l < mw"
    and "2 \<le> length cur \<longrightarrow> m cur < mw"
  shows "(\<forall>l \<in> set (fst (wrapLoop m mw lines cur rest)). 2 \<le> length l \<longrightarrow> m l < mw)
         \<and> (2 \<le> length (snd (wrapLoop m mw lines cur rest))
              \<longrightarrow> m (snd (wrapLoop m mw lines cur rest)) < mw)"
  using assms
proof (induction rest arbitrary: lines cur)
  case Nil
  then show ?case by simp
next
  case (Cons word rest)
  show ?case
  proof (cases "m (cur @ [word]) < mw")
    case True
    have "2 \<le> length (cur @ [word]) \<longrightarrow> m (cur @ [word]) < mw" using True by simp
    from Cons.IH [OF Cons.prems(1) this] True show ?thesis by simp
  next
    case False
    have "\<forall>l \<in> set (lines @ [cur]). 2 \<le> length l \<longrightarrow> m l < mw" using Cons.prems by simp
    moreover have "2 \<le> length [word] \<longrightarrow> m [word] < mw" by simp
    ultimately have "(\<forall>l \<in> set (fst (wrapLoop m mw (lines @ [cur]) [word] rest)). 2 \<le> length l \<longrightarrow> m l < mw)
         \<and> (2 \<le> length (snd (wrapLoop m mw (lines @ [cur]) [word] rest))
              \<longrightarrow> m (snd (wrapLoop m mw (lines @ [cur]) [word] rest)) < mw)"
      by (rule Cons.IH)
    with False show ?thesis by simp
  qed
qed


lemma wrapLines_Cons:
  "wrapLines m mw (w0 # rest)
     = map Str (fst (wrapLoop m mw [] [w0] rest) @ [snd (wrapLoop m mw [] [w0] rest)])"
  by (simp add: wrapLines_def split: prod.splits)

text \<open>The lines of a non-empty text: strings, none of them empty, whose concatenation is
  the text, and each either a single code unit or narrower than the maximum width.\<close>

lemma subtitleLines_decompose:
  assumes "narr \<noteq> []"
  shows "\<exists>ls. subtitleLines metrics narr w h = map Str ls
              \<and> ls \<noteq> [] \<and> concat ls = narr \<and> (\<forall>l \<in> set ls. l \<noteq> [])
              \<and> (\<forall>l \<in> set ls. 2 \<le> length l
                    \<longrightarrow> metrics (subtitleFontSize w h) l < subtitleMaxWidth w)"
proof -
  obtain w0 rest where narr: "narr = w0 # rest"
    using assms by (cases narr) simp_all
  let ?m = "metrics (subtitleFontSize w h)"
  let ?mw = "subtitleMaxWidth w"
  let ?r = "wrapLoop ?m ?mw [] [w0] rest"
  let ?ls = "fst ?r @ [snd ?r]"
  have eq: "subtitleLines metrics narr w h = map Str ?ls"
    by (simp add: subtitleLines_def narr wrapLines_Cons)
  have cat: "concat ?ls = narr"
    by (simp only: wrapLoop_concat) (simp add: narr)
  have ne: "(\<forall>l \<in> set (fst ?r). l \<noteq> []) \<and> snd ?r \<noteq> []"
    by (rule wrapLoop_nonempty) simp_all
  have fit: "(\<forall>l \<in> set (fst ?r). 2 \<le> length l \<longrightarrow> ?m l < ?mw)
         \<and> (2 \<le> length (snd ?r) \<longrightarrow> ?m (snd ?r) < ?mw)"
    by (rule wrapLoop_fits) simp_all
  have ne': "\<forall>l \<in> set ?ls. l \<noteq> []" using ne by simp
  have fit': "\<forall>l \<in> set ?ls. 2 \<le> length l \<longrightarrow> ?m l < ?mw" using fit by simp
  have "?ls \<noteq> []" by simp
  with eq cat ne' fit' show ?thesis by (intro exI [of _ ?ls] conjI)
qed

text \<open>
  C10.  For every non-empty text the wrapping in \<open>drawSubtitles\<close> yields at least one line,
  every line is a non-empty string, and the lines concatenated in order are the text.
\<close>

theorem C10_wrapping_preserves_text:
  assumes "narr \<noteq> []"
  shows "\<exists>ls. subtitleLines metrics narr w h = map Str ls
              \<and> ls \<noteq> [] \<and> concat ls = narr \<and> (\<forall>l \<in> set ls. l \<noteq> [])"
  using subtitleLines_decompose [OF assms, of metrics w h] by blast

text \<open>Four ideographs of 300 pixels each on the tall canvas wrap into two lines of two.\<close>

theorem C10_wrapping_preserves_text_witness:
  "[0x4F60, 0x597D, 0x4E16, 0x754C] \<noteq> ([] :: jsstring)
   \<and> subtitleLines (fixedPitch 300) [0x4F60, 0x597D, 0x4E16, 0x754C] 720 1280
       = [Str [0x4F60, 0x597D], Str [0x4E16, 0x754C]]
   \<and> (\<exists>ls. subtitleLines (fixedPitch 300) [0x4F60, 0x597D, 0x4E16, 0x754C] 720 1280 = map Str ls
           \<and> ls \<noteq> [] \<and> concat ls = [0x4F60, 0x597D, 0x4E16, 0x754C] \<and> (\<forall>l \<in> set ls. l \<noteq> []))"
  using C10_wrapping_preserves_text [of "[0x4F60, 0x597D, 0x4E16, 0x754C]" "fixedPitch 300" 720 1280]
  by (simp add: subtitleLines_def wrapLines_def fixedPitch_def subtitleMaxWidth_def subtitleFontSize_def)

lemma textLines_append: "textLines (xs @ ys) = textLines xs @ textLines ys"
  by (induction xs rule: textLines.induct) simp_all

lemma textLines_fillText:
  "textLines (map (\<lambda>(index, line). FillText line (x index) (y index)) (enumerate n ls)) = ls"
  by (induction ls arbitrary: n) simp_all

lemma textLines_drawSubtitles:
  "textLines (drawSubtitles metrics narr w h opacity) = subtitleLines metrics narr w h"
  by (simp add: drawSubtitles_def Let_def textLines_append textLines_fillText)

lemma subtitleLines_empty: "subtitleLines metrics [] w h = [Undefined]"
  by (simp add: subtitleLines_def wrapLines_def)

text \<open>
  C8.  The maximum line width is the canvas width minus 4 times the padding of 24, and the
  lines \<open>drawSubtitles\<close> hands to \<open>fillText\<close> are the wrapped lines.  Every line of two or
  more code units measures less than the maximum.  With glyphs that fit, that is when every
  code unit of the narration on its own measures at most the maximum (and, for an empty
  narration, so does the text drawn for its one line, which is \<open>undefined\<close>), no line that
  is drawn measures more than the maximum.
\<close>

theorem C8_wrapped_lines_fit:
  "subtitleMaxWidth w = w - 4 * 24
   \<and> textLines (drawSubtitles metrics narr w h opacity) = subtitleLines metrics narr w h
   \<and> (\<forall>l. Str l \<in> set (subtitleLines metrics narr w h) \<and> 2 \<le> length l
          \<longrightarrow> metrics (subtitleFontSize w h) l < subtitleMaxWidth w)
   \<and> ((\<forall>c \<in> set narr. metrics (subtitleFontSize w h) [c] \<le> subtitleMaxWidth w)
        \<and> (narr = [] \<longrightarrow> metrics (subtitleFontSize w h) (lineText Undefined) \<le> subtitleMaxWidth w)
        \<longrightarrow> (\<forall>line \<in> set (textLines (drawSubtitles metrics narr w h opacity)).
               metrics (subtitleFontSize w h) (lineText line) \<le> subtitleMaxWidth w))"
proof -
  let ?m = "metrics (subtitleFontSize w h)"
  let ?mw = "subtitleMaxWidth w"
  have width: "subtitleMaxWidth w = w - 4 * 24"
    by (simp add: subtitleMaxWidth_def)
  have drawnLines: "textLines (drawSubtitles metrics narr w h opacity) = subtitleLines metrics narr w h"
    by (rule textLines_drawSubtitles)
  have long: "\<forall>l. Str l \<in> set (subtitleLines metrics narr w h) \<and> 2 \<le> length l \<longrightarrow> ?m l < ?mw"
  proof (cases "narr = []")
    case True
    then show ?thesis by (simp add: subtitleLines_empty)
  next
    case False
    obtain ls where ls: "subtitleLines metrics narr w h = map Str ls"
        "\<forall>l \<in> set ls. 2 \<le> length l \<longrightarrow> ?m l < ?mw"
      using subtitleLines_decompose [OF False, of metrics w h] by blast
    show ?thesis using ls(2) by (auto simp add: ls(1))
  qed
  have all: "\<forall>line \<in> set (subtitleLines metrics narr w h). ?m (lineText line) \<le> ?mw"
    if single: "\<forall>c \<in> set narr. ?m [c] \<le> ?mw"
      and undef: "narr = [] \<longrightarrow> ?m (lineText Undefined) \<le> ?mw"
  proof (cases "narr = []")
    case True
    then show ?thesis using undef by (simp add: subtitleLines_empty)
  next
    case False
    obtain ls where ls: "subtitleLines metrics narr w h = map Str ls" "concat ls = narr"
        "\<forall>l \<in> set ls. l \<noteq> []" "\<forall>l \<in> set ls. 2 \<le> length l \<longrightarrow> ?m l < ?mw"
      using subtitleLines_decompose [OF False, of metrics w h] by blast
    have fits: "?m l \<le> ?mw" if l: "l \<in> set ls" for l
    proof (cases "2 \<le> length l")
      case True
      then show ?thesis using ls(4) l by fastforce
    next
      case short: False
      have "l \<noteq> []" using l ls(3) by simp
      then obtain c where c: "l = [c]"
        using short by (cases l) (simp_all add: not_le Suc_le_eq)
      have "c \<in> set (concat ls)" using l c by (auto intro: bexI [where x = "[c]"])
      then have "c \<in> set narr" by (simp only: ls(2))
      then show ?thesis using single c by simp
    qed
    show ?thesis unfolding ls(1) using fits by simp
  qed
  have all': "(\<forall>c \<in> set narr. ?m [c] \<le> ?mw) \<and> (narr = [] \<longrightarrow> ?m (lineText Undefined) \<le> ?mw)
        \<longrightarrow> (\<forall>line \<in> set (textLines (drawSubtitles metrics narr w h opacity)).
               ?m (lineText line) \<le> ?mw)"
    unfolding drawnLines using all by blast
  show ?thesis
    using width drawnLines long all' by (intro conjI)
qed

text \<open>Glyphs of 300 pixels on the tall canvas: two fit on a line, three do not.  An empty
  narration with glyphs of 20 pixels on the wide canvas.\<close>

theorem C8_wrapped_lines_fit_witness:
  "fixedPitch 300 (subtitleFontSize 720 1280) [0x4F60 :: utf16] \<le> subtitleMaxWidth 720
   \<and> textLines (drawSubtitles (fixedPitch 300) [0x4F60, 0x597D, 0x4E16, 0x754C] 720 1280 1)
       = [Str [0x4F60, 0x597D], Str [0x4E16, 0x754C]]
   \<and> fixedPitch 300 (subtitleFontSize 720 1280) [0x4F60, 0x597D :: utf16] < subtitleMaxWidth 720
   \<and> fixedPitch 300 (subtitleFontSize 720 1280) (lineText (Str [0x4E16, 0x754C])) \<le> subtitleMaxWidth 720
   \<and> textLines (drawSubtitles (fixedPitch 20) [] 1280 720 1) = [Undefined]
   \<and> fixedPitch 20 (subtitleFontSize 1280 720) (lineText Undefined) \<le> subtitleMaxWidth 1280"
proof -
  let ?narr = "[0x4F60, 0x597D, 0x4E16, 0x754C] :: jsstring"
  have single: "\<forall>c \<in> set ?narr. fixedPitch 300 (subtitleFontSize 720 1280) [c] \<le> subtitleMaxWidth 720"
    by (simp add: fixedPitch_def subtitleMaxWidth_def)
  have nonempty: "?narr = [] \<longrightarrow>
      fixedPitch 300 (subtitleFontSize 720 1280) (lineText Undefined) \<le> subtitleMaxWidth 720"
    by simp
  have lines: "subtitleLines (fixedPitch 300) ?narr 720 1280
       = [Str [0x4F60, 0x597D], Str [0x4E16, 0x754C]]"
    by (simp add: subtitleLines_def wrapLines_def fixedPitch_def subtitleMaxWidth_def subtitleFontSize_def)
  note fit = C8_wrapped_lines_fit [of 720 "fixedPitch 300" ?narr 1280 1]
  have drawn1: "textLines (drawSubtitles (fixedPitch 300) ?narr 720 1280 1)
       = [Str [0x4F60, 0x597D], Str [0x4E16, 0x754C]]"
    using fit lines by simp
  have long: "\<forall>l. Str l \<in> set (subtitleLines (fixedPitch 300) ?narr 720 1280) \<and> 2 \<le> length l
              \<longrightarrow> fixedPitch 300 (subtitleFontSize 720 1280) l < subtitleMaxWidth 720"
    using fit by blast
  have first: "fixedPitch 300 (subtitleFontSize 720 1280) [0x4F60, 0x597D :: utf16] < subtitleMaxWidth 720"
    using long [rule_format, of "[0x4F60, 0x597D]"] by (simp add: lines)
  have all: "\<forall>line \<in> set (textLines (drawSubtitles (fixedPitch 300) ?narr 720 1280 1)).
      fixedPitch 300 (subtitleFontSize 720 1280) (lineText line) \<le> subtitleMaxWidth 720"
    using fit single nonempty by blast
  have second: "fixedPitch 300 (subtitleFontSize 720 1280) (lineText (Str [0x4E16, 0x754C])) \<le> subtitleMaxWidth 720"
    using all unfolding drawn1 by simp
  have one: "fixedPitch 300 (subtitleFontSize 720 1280) [0x4F60 :: utf16] \<le> subtitleMaxWidth 720"
    using single by simp
  note fit0 = C8_wrapped_lines_fit [of 1280 "fixedPitch 20" "[]" 720 1]
  have drawn0: "textLines (drawSubtitles (fixedPitch 20) [] 1280 720 1) = [Undefined]"
    using fit0 by (simp add: subtitleLines_empty)
  have undef: "([] :: jsstring) = [] \<longrightarrow>
      fixedPitch 20 (subtitleFontSize 1280 720) (lineText Undefined) \<le> subtitleMaxWidth 1280"
    by (simp add: fixedPitch_def subtitleMaxWidth_def)
  have all0: "\<forall>line \<in> set (textLines (drawSubtitles (fixedPitch 20) [] 1280 720 1)).
      fixedPitch 20 (subtitleFontSize 1280 720) (lineText line) \<le> subtitleMaxWidth 1280"
  proof -
    have none: "\<forall>c \<in> set ([] :: jsstring).
        fixedPitch 20 (subtitleFontSize 1280 720) [c] \<le> subtitleMaxWidth 1280"
      by simp
    from fit0 none undef show ?thesis by blast
  qed
  have third: "fixedPitch 20 (subtitleFontSize 1280 720) (lineText Undefined) \<le> subtitleMaxWidth 1280"
    using all0 unfolding drawn0 by simp
  from one drawn1 first second drawn0 third show ?thesis by (intro conjI)
qed

subsection \<open>Traces\<close>

lemma fst_andThen:
  "fst (andThen r k) = fst r @ (case snd r of Done a \<Rightarrow> fst (k a) | Threw err \<Rightarrow> [] | Stalled \<Rightarrow> [])"
  by (cases r; cases "snd r") (simp_all add: andThen_def)

lemma snd_andThen:
  "snd (andThen r k) = (case snd r of Done a \<Rightarrow> snd (k a) | Threw err \<Rightarrow> Threw err | Stalled \<Rightarrow> Stalled)"
  by (cases r; cases "snd r") (simp_all add: andThen_def)

lemma progressValues_append:
  "progressValues (xs @ ys) = progressValues xs @ progressValues ys"
  by (induction xs rule: progressValues.induct) simp_all

lemma drawn_append: "drawn (xs @ ys) = drawn xs @ drawn ys"
  by (induction xs rule: drawn.induct) simp_all

lemma renderLoop_no_throw:
  assumes "\<And>t. snd (frame t) = None"
  shows "renderLoop stop frame t0 clock =
           (concat (map (\<lambda>now. [Draw (fst (frame (now - t0))), Wait FRAME_INTERVAL])
                        (takeWhile (\<lambda>now. \<not> stop (now - t0)) clock)),
            case dropWhile (\<lambda>now. \<not> stop (now - t0)) clock of
              [] \<Rightarrow> Stalled
            | now # rest \<Rightarrow> Done rest)"
proof (induction clock)
  case Nil
  show ?case by simp
next
  case (Cons now clock)
  obtain ops where ops: "frame (now - t0) = (ops, None)"
    using assms [of "now - t0"] by (cases "frame (now - t0)") simp
  show ?case
    by (simp add: Let_def ops Cons.IH)
qed

lemma progressValues_renderLoop:
  "progressValues (fst (renderLoop stop frame t0 clock)) = []"
proof (induction clock)
  case Nil
  show ?case by simp
next
  case (Cons now clock)
  obtain ops err where "frame (now - t0) = (ops, err)" by (cases "frame (now - t0)")
  then show ?case using Cons.IH by (cases err) (simp_all add: Let_def)
qed

lemma progressValues_readClock: "progressValues (fst (readClock clock)) = []"
  by (cases clock) (simp_all add: readClock_def)

lemma progressValues_awaitPlay: "progressValues (fst (awaitPlay e a)) = []"
  by (simp add: awaitPlay_def)

lemma progressValues_introSegment:
  "progressValues (fst (introSegment c w h clock)) = []"
  by (simp add: introSegment_def fst_andThen progressValues_append progressValues_readClock
      progressValues_renderLoop fillBlack_def split: outcome.splits prod.splits)

lemma progressValues_clipTransition:
  "progressValues (fst (clipTransition e w h tv clock)) = []"
  by (simp add: clipTransition_def Let_def fst_andThen progressValues_append progressValues_readClock
      progressValues_renderLoop progressValues_awaitPlay split: outcome.splits prod.splits)

lemma progressValues_canvasTransition:
  "progressValues (fst (canvasTransition w h cur next clock)) = []"
  by (simp add: canvasTransition_def fst_andThen progressValues_append progressValues_readClock
      progressValues_renderLoop emit_def split: outcome.splits prod.splits)

lemma progressValues_transitionSegment:
  "progressValues (fst (transitionSegment e w h cur next tv clock)) = []"
  by (simp add: transitionSegment_def fst_andThen progressValues_append
      progressValues_clipTransition progressValues_canvasTransition
      split: outcome.splits option.splits)

subsection \<open>Progress reports\<close>

lemma progressValues_sceneIteration:
  "progressValues (fst (sceneIteration e w h scs va ta i clock))
     = [20 + (real i / real (length scs)) * 70]"
  by (simp add: sceneIteration_def Let_def fst_andThen snd_andThen progressValues_append
      progressValues_readClock progressValues_renderLoop progressValues_awaitPlay
      progressValues_transitionSegment emit_def
      split: outcome.splits option.splits prod.splits)

lemma progressValues_mainLoop:
  "\<exists>rest. progressValues (fst (mainLoop e w h scs va ta is clock)) @ rest
            = map (\<lambda>i. 20 + (real i / real (length scs)) * 70) is
          \<and> ((\<exists>c. snd (mainLoop e w h scs va ta is clock) = Done c) \<longrightarrow> rest = [])"
proof (induction "is" arbitrary: clock)
  case Nil
  show ?case by simp
next
  case (Cons i "is")
  show ?case
  proof (cases "snd (sceneIteration e w h scs va ta i clock)")
    case (Done c)
    from Cons.IH [of c] obtain rest where
      "progressValues (fst (mainLoop e w h scs va ta is c)) @ rest
         = map (\<lambda>i. 20 + (real i / real (length scs)) * 70) is"
      "(\<exists>c'. snd (mainLoop e w h scs va ta is c) = Done c') \<longrightarrow> rest = []"
      by blast
    then show ?thesis
      using Done
      by (intro exI [of _ rest])
         (simp add: fst_andThen snd_andThen progressValues_append progressValues_sceneIteration)
  next
    case (Threw err)
    then show ?thesis
      by (simp add: fst_andThen snd_andThen progressValues_append progressValues_sceneIteration)
  next
    case Stalled
    then show ?thesis
      by (simp add: fst_andThen snd_andThen progressValues_append progressValues_sceneIteration)
  qed
qed

lemma progressValues_outroSegment:
  "progressValues (fst (outroSegment w h va clock)) = [99]"
  by (simp add: outroSegment_def Let_def fst_andThen snd_andThen progressValues_append
      progressValues_readClock progressValues_renderLoop emit_def fillBlack_def
      split: outcome.splits prod.splits)

lemma progressValues_loadAssets:
  "progressValues (fst (loadAssets e scs is va ta))
     = map (\<lambda>i. (real i / real (length scs)) * 20) is"
  by (induction "is" arbitrary: va ta) (simp_all add: Let_def)

lemma progressValues_exportBody:
  "\<exists>rest. progressValues (fst (exportBody e st cover w h clock)) @ rest
            = expectedProgress (truthy (if truthy cover then cover else coverImage st))
                (length (scenes st))
          \<and> ((\<exists>c. snd (exportBody e st cover w h clock) = Done c) \<longrightarrow> rest = [])"
proof -
  let ?n = "length (scenes st)"
  let ?cov = "truthy (if truthy cover then cover else coverImage st)"
  let ?loaded = "loadAssets e (scenes st) [0..<?n] [] []"
  let ?va = "fst (snd ?loaded)"
  let ?ta = "snd (snd ?loaded)"
  let ?main = "map (\<lambda>i. 20 + (real i / real ?n) * 70) [0..<?n]"
  let ?head = "(if ?cov then [0] else []) @ map (\<lambda>i. (real i / real ?n) * 20) [0..<?n]"
  have expected: "expectedProgress ?cov ?n = ?head @ ?main @ [99]"
    by (simp add: expectedProgress_def)
  define resumed :: "unit run" where
    "resumed = (if suspended e
                then ([Resume], case resume e of None \<Rightarrow> Done () | Some err \<Rightarrow> Threw err)
                else emit [])"
  define intro where
    "intro = (case (case (if truthy cover then cover else coverImage st) of
                          Some b64 \<Rightarrow> if ?cov
                                      then Some (case loadCover e b64 of (iw, ih) \<Rightarrow> HTMLImageElement iw ih)
                                      else None
                        | None \<Rightarrow> None) of
                    Some cover \<Rightarrow> introSegment cover w h clock
                  | None \<Rightarrow> ([], Done clock))"
  define tail where
    "tail = andThen resumed (\<lambda>_. andThen intro (\<lambda>clock.
              andThen (mainLoop e w h (scenes st) ?va ?ta [0..<?n] clock) (\<lambda>clock.
              outroSegment w h ?va clock)))"
  have body: "exportBody e st cover w h clock
      = andThen (emit ((if ?cov then [OnProgress 0 LoadingCover] else []) @ fst ?loaded)) (\<lambda>_. tail)"
    by (simp add: exportBody_def Let_def tail_def resumed_def intro_def)
  have pv_resumed: "progressValues (fst resumed) = []"
    by (simp add: resumed_def emit_def)
  have pv_intro: "progressValues (fst intro) = []"
    by (simp add: intro_def progressValues_introSegment split: option.splits)
  have pv_head: "progressValues ((if ?cov then [OnProgress 0 LoadingCover] else []) @ fst ?loaded) = ?head"
    by (simp add: progressValues_append progressValues_loadAssets)
  have tail_ok: "\<exists>rest. progressValues (fst tail) @ rest = ?main @ [99]
                   \<and> ((\<exists>c. snd tail = Done c) \<longrightarrow> rest = [])"
  proof (cases "snd resumed")
    case (Done u)
    show ?thesis
    proof (cases "snd intro")
      case intro_done: (Done c1)
      obtain rest where rest:
        "progressValues (fst (mainLoop e w h (scenes st) ?va ?ta [0..<?n] c1)) @ rest = ?main"
        "(\<exists>c. snd (mainLoop e w h (scenes st) ?va ?ta [0..<?n] c1) = Done c) \<longrightarrow> rest = []"
        using progressValues_mainLoop [of e w h "scenes st" ?va ?ta "[0..<?n]" c1] by blast
      show ?thesis
      proof (cases "snd (mainLoop e w h (scenes st) ?va ?ta [0..<?n] c1)")
        case main_done: (Done c2)
        then have "rest = []" using rest(2) by simp
        then show ?thesis
          using Done intro_done main_done rest(1)
          by (simp add: tail_def fst_andThen snd_andThen progressValues_append pv_resumed pv_intro
              progressValues_outroSegment)
      next
        case (Threw err)
        then show ?thesis
          using Done intro_done rest(1)
          by (intro exI [of _ "rest @ [99]"])
             (simp add: tail_def fst_andThen snd_andThen progressValues_append pv_resumed pv_intro)
      next
        case Stalled
        then show ?thesis
          using Done intro_done rest(1)
          by (intro exI [of _ "rest @ [99]"])
             (simp add: tail_def fst_andThen snd_andThen progressValues_append pv_resumed pv_intro)
      qed
    next
      case (Threw err)
      then show ?thesis using Done
        by (simp add: tail_def fst_andThen snd_andThen progressValues_append pv_resumed pv_intro)
    next
      case Stalled
      then show ?thesis using Done
        by (simp add: tail_def fst_andThen snd_andThen progressValues_append pv_resumed pv_intro)
    qed
  next
    case (Threw err)
    then show ?thesis
      by (simp add: tail_def fst_andThen snd_andThen pv_resumed)
  next
    case Stalled
    then show ?thesis
      by (simp add: tail_def fst_andThen snd_andThen pv_resumed)
  qed
  then obtain rest where rest: "progressValues (fst tail) @ rest = ?main @ [99]"
      "(\<exists>c. snd tail = Done c) \<longrightarrow> rest = []"
    by blast
  have split: "progressValues (fst (exportBody e st cover w h clock))
      = progressValues ((if ?cov then [OnProgress 0 LoadingCover] else []) @ fst ?loaded)
        @ progressValues (fst tail)"
    by (simp only: body fst_andThen emit_def fst_conv snd_conv outcome.case progressValues_append)
  have "progressValues (fst (exportBody e st cover w h clock)) @ rest = ?head @ ?main @ [99]"
    unfolding split pv_head using rest(1) by simp
  moreover have "(\<exists>c. snd (exportBody e st cover w h clock) = Done c) \<longrightarrow> rest = []"
    using rest(2) by (simp add: body snd_andThen emit_def)
  ultimately show ?thesis
    unfolding expected by blast
qed

lemma loading_bounds:
  assumes "i < n"
  shows "0 \<le> (real i / real n) * 20" "(real i / real n) * 20 \<le> (real (n - 1) / real n) * 20"
    "(real (n - 1) / real n) * 20 < 20"
    "20 \<le> 20 + (real i / real n) * 70" "20 + (real i / real n) * 70 < 99"
proof -
  have n: "0 < real n" using assms by simp
  have i: "real i \<le> real (n - 1)" using assms by simp
  have lt: "real (n - 1) < real n" using assms by simp
  show "0 \<le> (real i / real n) * 20" by simp
  show "(real i / real n) * 20 \<le> (real (n - 1) / real n) * 20"
    using n i by (simp add: divide_right_mono)
  show "(real (n - 1) / real n) * 20 < 20"
    using n lt by (simp add: field_simps)
  show "20 \<le> 20 + (real i / real n) * 70" by simp
  have "real i / real n < 1" using n assms by simp
  then have "(real i / real n) * 70 < 1 * 70"
    by (rule mult_strict_right_mono) simp
  then show "20 + (real i / real n) * 70 < 99" by simp
qed

lemma sorted_expectedProgress: "sorted (expectedProgress cover n)"
proof -
  define A :: "real list" where "A = (if cover then [0] else [])"
  define B where "B = map (\<lambda>i. (real i / real n) * 20) [0..<n]"
  define C where "C = map (\<lambda>i. 20 + (real i / real n) * 70) [0..<n]"
  have A: "sorted A" "\<forall>x \<in> set A. x = 0"
    by (simp_all add: A_def)
  have B: "sorted B"
    unfolding B_def
    by (rule sorted_map_mono [OF sorted_upt])
       (auto intro!: monotone_onI simp add: divide_right_mono)
  have C: "sorted C"
    unfolding C_def
    by (rule sorted_map_mono [OF sorted_upt])
       (auto intro!: monotone_onI simp add: divide_right_mono)
  have Bb: "\<forall>x \<in> set B. 0 \<le> x \<and> x < 20"
  proof
    fix x assume "x \<in> set B"
    then obtain i where "i < n" "x = (real i / real n) * 20" by (auto simp add: B_def)
    then show "0 \<le> x \<and> x < 20" using loading_bounds [of i n] by linarith
  qed
  have Cb: "\<forall>x \<in> set C. 20 \<le> x \<and> x < 99"
  proof
    fix x assume "x \<in> set C"
    then obtain i where "i < n" "x = 20 + (real i / real n) * 70" by (auto simp add: C_def)
    then show "20 \<le> x \<and> x < 99" using loading_bounds [of i n] by linarith
  qed
  have "sorted (C @ [99])"
    using C Cb by (simp add: sorted_append less_imp_le)
  moreover have "\<forall>x \<in> set B. \<forall>y \<in> set (C @ [99]). x \<le> y"
    using Bb Cb by fastforce
  ultimately have BC: "sorted (B @ C @ [99])"
    using B by (simp only: sorted_append) simp
  have "\<forall>y \<in> set (B @ C @ [99]). 0 \<le> y"
    using Bb Cb by fastforce
  then have "\<forall>x \<in> set A. \<forall>y \<in> set (B @ C @ [99]). x \<le> y"
    using A(2) by auto
  with A(1) BC have "sorted (A @ B @ C @ [99])"
    by (simp only: sorted_append) simp
  then show ?thesis
    by (simp only: expectedProgress_def A_def B_def C_def)
qed

lemma progressValues_generateStoryVideo:
  "progressValues (fst (generateStoryVideo e st cover clock))
     = progressValues (fst (exportBody e st cover (canvasWidth st) (canvasHeight st) clock))"
  by (simp add: generateStoryVideo_def Let_def progressValues_append fillBlack_def
      split: outcome.splits)

lemma generateStoryVideo_Done:
  "snd (generateStoryVideo e st cover clock) = Done b \<Longrightarrow>
     \<exists>c. snd (exportBody e st cover (canvasWidth st) (canvasHeight st) clock) = Done c"
  by (simp add: generateStoryVideo_def Let_def split: outcome.splits)

text \<open>
  C7.  In every export run, complete or cut short by an exception or by a stalled clock, the
  percentages reported so far are in non-decreasing order.  They are an initial part of: the
  cover report 0 if there is a cover, the loading reports i/N * 20 (each at most
  (N-1)/N * 20, which is below 20), the main-loop reports 20 + i/N * 70 (each at least 20 and
  below 99), and the finalization report 99; a run that completes reports all of them.
\<close>

theorem C7_progress_monotone:
  "sorted (progressValues (fst (generateStoryVideo e st cover clock)))
   \<and> sorted (expectedProgress c n)
   \<and> (\<exists>rest. progressValues (fst (generateStoryVideo e st cover clock)) @ rest
        = expectedProgress (truthy (if truthy cover then cover else coverImage st))
                (length (scenes st)))
   \<and> ((\<exists>b. snd (generateStoryVideo e st cover clock) = Done b) \<longrightarrow>
        progressValues (fst (generateStoryVideo e st cover clock))
        = expectedProgress (truthy (if truthy cover then cover else coverImage st))
                (length (scenes st)))
   \<and> (\<forall>i < length (scenes st).
         (real i / real (length (scenes st))) * 20
            \<le> (real (length (scenes st) - 1) / real (length (scenes st))) * 20
         \<and> (real (length (scenes st) - 1) / real (length (scenes st))) * 20 < 20
         \<and> 20 \<le> 20 + (real i / real (length (scenes st))) * 70
         \<and> 20 + (real i / real (length (scenes st))) * 70 < 99)"
proof -
  let ?w = "canvasWidth st"
  let ?h = "canvasHeight st"
  let ?pv = "progressValues (fst (generateStoryVideo e st cover clock))"
  let ?exp = "expectedProgress (truthy (if truthy cover then cover else coverImage st))
                (length (scenes st))"
  obtain rest where rest: "?pv @ rest = ?exp"
      "(\<exists>c. snd (exportBody e st cover ?w ?h clock) = Done c) \<longrightarrow> rest = []"
    using progressValues_exportBody [of e st cover ?w ?h clock]
    unfolding progressValues_generateStoryVideo by blast
  have "sorted (?pv @ rest)"
    unfolding rest(1) by (rule sorted_expectedProgress)
  then have sorted: "sorted ?pv" by (simp add: sorted_append)
  have complete: "?pv = ?exp" if "\<exists>b. snd (generateStoryVideo e st cover clock) = Done b"
  proof -
    from that obtain b where "snd (generateStoryVideo e st cover clock) = Done b" by blast
    from generateStoryVideo_Done [OF this] rest(2) have "rest = []" by blast
    with rest(1) show ?thesis by simp
  qed
  have bounds: "\<forall>i < length (scenes st).
         (real i / real (length (scenes st))) * 20
            \<le> (real (length (scenes st) - 1) / real (length (scenes st))) * 20
         \<and> (real (length (scenes st) - 1) / real (length (scenes st))) * 20 < 20
         \<and> 20 \<le> 20 + (real i / real (length (scenes st))) * 70
         \<and> 20 + (real i / real (length (scenes st))) * 70 < 99"
  proof (intro allI impI conjI)
    fix i assume i: "i < length (scenes st)"
    show "(real i / real (length (scenes st))) * 20
            \<le> (real (length (scenes st) - 1) / real (length (scenes st))) * 20"
      by (rule loading_bounds(2) [OF i])
    show "(real (length (scenes st) - 1) / real (length (scenes st))) * 20 < 20"
      by (rule loading_bounds(3) [OF i])
    show "20 \<le> 20 + (real i / real (length (scenes st))) * 70"
      by (rule loading_bounds(4) [OF i])
    show "20 + (real i / real (length (scenes st))) * 70 < 99"
      by (rule loading_bounds(5) [OF i])
  qed
  have prefix: "\<exists>rest. ?pv @ rest = ?exp"
    using rest(1) by (rule exI)
  have complete': "(\<exists>b. snd (generateStoryVideo e st cover clock) = Done b) \<longrightarrow> ?pv = ?exp"
    using complete by (rule impI)
  show ?thesis
    using sorted sorted_expectedProgress [of c n] prefix complete' bounds by (intro conjI)
qed

subsection \<open>A complete run\<close>

lemma plainEnv_fields:
  "isTypeSupported plainEnv = (\<lambda>t. t = ''video/mp4'')"
  "loadVideo plainEnv = (\<lambda>url. Some (1280, 720, Fin 4))"
  "loadImage plainEnv = (\<lambda>b64. (1024, 1024))"
  "loadCover plainEnv = (\<lambda>b64. (1024, 1024))"
  "decodeAudioData plainEnv = decodeTo 1"
  "suspended plainEnv = False"
  "resume plainEnv = None"
  "play plainEnv = (\<lambda>a. None)"
  "measureText plainEnv = fixedPitch 36"
  "recorded plainEnv = [0, 4096]"
  by (simp_all add: plainEnv_def)

lemma imageScene_fields:
  "narration imageScene = []"
  "imageData imageScene = Some ''iVBORw0KGgo=''"
  "videoUrl imageScene = None"
  "transitionVideoUrl imageScene = None"
  "audioData imageScene = None"
  by (simp_all add: imageScene_def)

lemma loadAssets_one:
  "loadAssets plainEnv (scenes oneSceneStory) [0..<length (scenes oneSceneStory)] [] []
     = ([OnProgress 0 (LoadingAsset 1)], [HTMLImageElement 1024 1024], [None])"
  by (simp add: oneSceneStory_def loadSceneAsset_def loadTransitionAsset_def plainEnv_fields
      imageScene_fields)

lemma body_one:
  "exportBody plainEnv oneSceneStory None 1280 720 [0, 3, 3, 5]
     = ([OnProgress 0 (LoadingAsset 1),
         OnProgress 20 (RecordingScene 1),
         OnProgress 99 Finishing,
         fillBlack 1280 720, Wait 500], Done [])"
  unfolding exportBody_def Let_def loadAssets_one
  by (simp add: oneSceneStory_def andThen_def emit_def readClock_def
      sceneIteration_def arrayGet_def prepareAudio_def sceneDuration_def transitionSegment_def
      outroSegment_def fadeDuration_def imageScene_fields plainEnv_fields)

lemma run_one:
  "generateStoryVideo plainEnv oneSceneStory None [0, 3, 3, 5]
     = ([fillBlack 1280 720,
         RecorderStart \<lparr> mimeType = ''video/mp4'', videoBitsPerSecond = 8000000 \<rparr>,
         OnProgress 0 (LoadingAsset 1),
         OnProgress 20 (RecordingScene 1),
         OnProgress 99 Finishing,
         fillBlack 1280 720, Wait 500,
         RecorderStop, AudioClose],
        Done \<lparr> parts = [4096], blobType = ''video/mp4'' \<rparr>)"
proof -
  have size: "canvasWidth oneSceneStory = 1280" "canvasHeight oneSceneStory = 720"
    by (simp_all add: canvasWidth_def canvasHeight_def oneSceneStory_def)
  show ?thesis
    unfolding generateStoryVideo_def Let_def size body_one
    by (simp add: recorderOptions_def selectMimeType_def mp4_avc_def mp4_generic_def
        plainEnv_fields)
qed

subsection \<open>Transitions and outro\<close>

lemma drawn_frames:
  "drawn (concat (map (\<lambda>now. [Draw (f now), Wait FRAME_INTERVAL]) xs)) = map f xs"
  by (induction xs) simp_all

lemma drawAsset_Some_no_throw: "snd (drawAsset (Some a) w h s) = None"
  by (simp add: drawAsset_def Let_def split: prod.splits)

lemma seqOps_no_throw: "snd d1 = None \<Longrightarrow> seqOps d1 d2 = (fst d1 @ fst d2, snd d2)"
  by (cases d1) (simp add: seqOps_def)

lemma drawCinematicTransition_no_throw:
  "snd (drawCinematicTransition (Some a) (Some b) w h p) = None"
  by (simp add: drawCinematicTransition_def Let_def seqOps_no_throw drawAsset_Some_no_throw)

lemma outroFrame_Some:
  "outroFrame (Some a) w h tElapsed =
     (fst (drawAsset (Some a) w h
             (if isVideo (Some a) then 1.0 else 1.25 + ((tElapsed / 1.5) * 0.05)))
        @ [SetFillStyle (Rgba0 (tElapsed / 1.5)), FillRect 0 0 w h],
      None)"
  by (cases "isVideo (Some a)")
     (simp_all add: outroFrame_def Let_def seqOps_no_throw drawAsset_Some_no_throw fadeDuration_def)

lemma renderLoop_drawAsset:
  "renderLoop stop (\<lambda>t. drawAsset (Some a) w h (s t)) t0 clock =
     (concat (map (\<lambda>now. [Draw (fst (drawAsset (Some a) w h (s (now - t0)))), Wait FRAME_INTERVAL])
                  (takeWhile (\<lambda>now. \<not> stop (now - t0)) clock)),
      case dropWhile (\<lambda>now. \<not> stop (now - t0)) clock of
        [] \<Rightarrow> Stalled
      | now # rest \<Rightarrow> Done rest)"
  by (rule renderLoop_no_throw) (rule drawAsset_Some_no_throw)

lemma renderLoop_drawCinematicTransition:
  "renderLoop stop (\<lambda>t. drawCinematicTransition (Some a) (Some b) w h (p t)) t0 clock =
     (concat (map (\<lambda>now. [Draw (fst (drawCinematicTransition (Some a) (Some b) w h (p (now - t0)))),
                            Wait FRAME_INTERVAL])
                  (takeWhile (\<lambda>now. \<not> stop (now - t0)) clock)),
      case dropWhile (\<lambda>now. \<not> stop (now - t0)) clock of
        [] \<Rightarrow> Stalled
      | now # rest \<Rightarrow> Done rest)"
  by (rule renderLoop_no_throw) (rule drawCinematicTransition_no_throw)

lemma clipTransition_run:
  assumes "play e tv = None"
  shows "clipTransition e w h tv (t0 # clk) =
           ([SetCurrentTime0 tv, Play tv]
            @ concat (map (\<lambda>now. [Draw (fst (drawAsset (Some tv) w h 1.0)), Wait FRAME_INTERVAL])
                (takeWhile (\<lambda>now. \<not> js_ge (Fin (now - t0)) (clipDuration tv)) clk)),
            case dropWhile (\<lambda>now. \<not> js_ge (Fin (now - t0)) (clipDuration tv)) clk of
              [] \<Rightarrow> Stalled
            | now # rest \<Rightarrow> Done rest)"
  unfolding clipTransition_def Let_def
  by (simp add: readClock_def andThen_def awaitPlay_def assms renderLoop_drawAsset)

lemma canvasTransition_run:
  "canvasTransition w h (Some cur) nxt (t0 # clk) =
     ((if isVideo (Some nxt) then [SetCurrentTime0 nxt, Play nxt] else [])
      @ concat (map (\<lambda>now. [Draw (fst (drawCinematicTransition (Some cur) (Some nxt) w h
                                   (easeInOutCubic ((now - t0) / transitionDuration)))),
                             Wait FRAME_INTERVAL])
          (takeWhile (\<lambda>now. (now - t0) / transitionDuration < 1) clk)),
      case dropWhile (\<lambda>now. (now - t0) / transitionDuration < 1) clk of
        [] \<Rightarrow> Stalled
      | now # rest \<Rightarrow> Done rest)"
  unfolding canvasTransition_def
  by (simp add: readClock_def andThen_def emit_def renderLoop_drawCinematicTransition not_le)

lemma drawn_transitionSegment_clip:
  assumes "play e tv = None"
  shows "drawn (fst (transitionSegment e w h cur (Some nxt) (Some tv) (t0 # clk)))
           = map (\<lambda>now. fst (drawAsset (Some tv) w h 1.0))
               (takeWhile (\<lambda>now. \<not> js_ge (Fin (now - t0)) (clipDuration tv)) clk)"
  by (simp add: transitionSegment_def fst_andThen clipTransition_run [OF assms] drawn_append
      drawn_frames split: outcome.splits option.splits list.splits)

lemma drawn_transitionSegment_canvas:
  "drawn (fst (transitionSegment e w h (Some cur) (Some nxt) None (t0 # clk)))
     = map (\<lambda>now. fst (drawCinematicTransition (Some cur) (Some nxt) w h
                          (easeInOutCubic ((now - t0) / transitionDuration))))
         (takeWhile (\<lambda>now. (now - t0) / transitionDuration < 1) clk)"
  by (simp add: transitionSegment_def fst_andThen canvasTransition_run drawn_append
      drawn_frames not_le split: outcome.splits option.splits list.splits)

lemma loadAssets_arrays:
  "fst (snd (loadAssets e scs is va ta)) = va @ map (\<lambda>i. loadSceneAsset e (scs ! i)) is
   \<and> snd (snd (loadAssets e scs is va ta)) = ta @ map (\<lambda>i. loadTransitionAsset e (scs ! i)) is"
  by (induction "is" arbitrary: va ta) (simp_all add: Let_def)

lemma map_over_indices: "map (\<lambda>i. f (xs ! i)) [0..<length xs] = map f xs"
  by (rule nth_equalityI) simp_all

lemma loaded_arrays:
  "fst (snd (loadAssets e scs [0..<length scs] [] [])) = map (loadSceneAsset e) scs"
  "snd (snd (loadAssets e scs [0..<length scs] [] [])) = map (loadTransitionAsset e) scs"
  by (simp_all add: loadAssets_arrays map_over_indices)


subsection \<open>Completion and cleanup\<close>

text \<open>One image scene without cover: the run completes and reports 0, 20 and 99.\<close>

theorem C7_progress_monotone_witness:
  "(\<exists>b. snd (generateStoryVideo plainEnv oneSceneStory None [0, 3, 3, 5]) = Done b)
   \<and> sorted (progressValues (fst (generateStoryVideo plainEnv oneSceneStory None [0, 3, 3, 5])))
   \<and> progressValues (fst (generateStoryVideo plainEnv oneSceneStory None [0, 3, 3, 5]))
       = expectedProgress False 1
   \<and> expectedProgress False 1 = [0, 20, 99]
   \<and> (0 :: nat) < length (scenes oneSceneStory)"
proof -
  have run: "\<exists>b. snd (generateStoryVideo plainEnv oneSceneStory None [0, 3, 3, 5]) = Done b"
    by (simp add: run_one)
  have cover: "truthy (if truthy None then None else coverImage oneSceneStory) = False"
    "length (scenes oneSceneStory) = 1"
    by (simp_all add: oneSceneStory_def)
  have "expectedProgress False 1 = [0, 20, 99]"
    by (simp add: expectedProgress_def)
  with C7_progress_monotone [of plainEnv oneSceneStory None "[0, 3, 3, 5]"] run cover
  show ?thesis by simp
qed

lemma rejectingEnv_fields:
  "isTypeSupported rejectingEnv = (\<lambda>t. t = ''video/mp4'')"
  "loadVideo rejectingEnv = (\<lambda>url. Some (1280, 720, Fin 4))"
  "loadImage rejectingEnv = (\<lambda>b64. (1024, 1024))"
  "suspended rejectingEnv = False"
  "play rejectingEnv = (\<lambda>a. Some PlayRejected)"
  "recorded rejectingEnv = [0, 4096]"
  by (simp_all add: rejectingEnv_def plainEnv_def)

lemma clipScene_fields:
  "narration clipScene = []"
  "imageData clipScene = Some ''iVBORw0KGgo=''"
  "videoUrl clipScene = Some ''blob:clip1''"
  "transitionVideoUrl clipScene = Some ''blob:transition1''"
  "audioData clipScene = None"
  by (simp_all add: clipScene_def)

lemma loadAssets_clip:
  "loadAssets rejectingEnv (scenes clipStory) [0..<length (scenes clipStory)] [] []
     = ([OnProgress 0 (LoadingAsset 1)], [HTMLVideoElement 1280 720 (Fin 4)],
        [Some (HTMLVideoElement 1280 720 (Fin 4))])"
  by (simp add: clipStory_def loadSceneAsset_def loadTransitionAsset_def rejectingEnv_fields
      clipScene_fields)

lemma body_rejected:
  "exportBody rejectingEnv clipStory None 1280 720 []
     = ([OnProgress 0 (LoadingAsset 1),
         OnProgress 20 (RecordingScene 1),
         SetCurrentTime0 (HTMLVideoElement 1280 720 (Fin 4)),
         Play (HTMLVideoElement 1280 720 (Fin 4))], Threw PlayRejected)"
  unfolding exportBody_def Let_def loadAssets_clip
  by (simp add: clipStory_def andThen_def emit_def awaitPlay_def
      sceneIteration_def arrayGet_def prepareAudio_def sceneDuration_def
      clipScene_fields rejectingEnv_fields)

lemma clipStory_size: "canvasWidth clipStory = 1280" "canvasHeight clipStory = 720"
  by (simp_all add: canvasWidth_def canvasHeight_def clipStory_def)

text \<open>
  C2 as stated fails in its second half.  When \<open>play()\<close> of the scene's clip rejects, the
  recorder is stopped and the audio context closed, but the promise is rejected with that
  error: the chunk the recorder produced is not delivered as a blob.
\<close>

theorem C2_counterexample:
  "generateStoryVideo rejectingEnv clipStory None []
     = ([fillBlack 1280 720,
         RecorderStart \<lparr> mimeType = ''video/mp4'', videoBitsPerSecond = 8000000 \<rparr>,
         OnProgress 0 (LoadingAsset 1),
         OnProgress 20 (RecordingScene 1),
         SetCurrentTime0 (HTMLVideoElement 1280 720 (Fin 4)),
         Play (HTMLVideoElement 1280 720 (Fin 4)),
         ConsoleError PlayRejected, RecorderStop, AudioClose],
        Threw PlayRejected)
   \<and> filter (\<lambda>size. 0 < size) (recorded rejectingEnv) = [4096]
   \<and> snd (generateStoryVideo rejectingEnv clipStory None [])
       \<noteq> Done \<lparr> parts = [4096], blobType = ''video/mp4'' \<rparr>"
  unfolding generateStoryVideo_def Let_def clipStory_size body_rejected
  by (simp add: recorderOptions_def selectMimeType_def mp4_avc_def mp4_generic_def
      rejectingEnv_fields)

text \<open>
  C2, amended.  When the body of the export throws, the error is logged, the recorder is
  stopped and the audio context is closed, in this order and after everything the body did,
  and the caller gets the same error as a rejection, not a blob.  When the body completes, the
  recorder is stopped and the audio context closed likewise, and the caller gets the blob of
  the non-empty recorded chunks, typed by the MIME type up to its first semicolon.  The
  export rejects exactly when its body throws and resolves exactly when its body completes.
\<close>

theorem C2_cleanup_and_rethrow:
  "(snd (exportBody e st cover (canvasWidth st) (canvasHeight st) clock) = Threw err \<longrightarrow>
      generateStoryVideo e st cover clock
        = ([fillBlack (canvasWidth st) (canvasHeight st),
            RecorderStart (recorderOptions (isTypeSupported e))]
           @ fst (exportBody e st cover (canvasWidth st) (canvasHeight st) clock)
           @ [ConsoleError err, RecorderStop, AudioClose],
           Threw err))
   \<and> (snd (exportBody e st cover (canvasWidth st) (canvasHeight st) clock) = Done c \<longrightarrow>
      generateStoryVideo e st cover clock
        = ([fillBlack (canvasWidth st) (canvasHeight st),
            RecorderStart (recorderOptions (isTypeSupported e))]
           @ fst (exportBody e st cover (canvasWidth st) (canvasHeight st) clock)
           @ [RecorderStop, AudioClose],
           Done \<lparr> parts = filter (\<lambda>size. 0 < size) (recorded e),
                  blobType = takeWhile (\<lambda>ch. ch \<noteq> CHR '';'')
                               (selectMimeType (isTypeSupported e)) \<rparr>))
   \<and> (snd (generateStoryVideo e st cover clock) = Threw err
        \<longleftrightarrow> snd (exportBody e st cover (canvasWidth st) (canvasHeight st) clock) = Threw err)
   \<and> ((\<exists>b. snd (generateStoryVideo e st cover clock) = Done b)
        \<longleftrightarrow> (\<exists>c. snd (exportBody e st cover (canvasWidth st) (canvasHeight st) clock) = Done c))"
  by (cases "snd (exportBody e st cover (canvasWidth st) (canvasHeight st) clock)")
     (simp_all add: generateStoryVideo_def Let_def recorderOptions_def)

text \<open>The run in which \<open>play()\<close> rejects, and the run that completes.\<close>

theorem C2_cleanup_and_rethrow_witness:
  "snd (exportBody rejectingEnv clipStory None (canvasWidth clipStory) (canvasHeight clipStory) [])
     = Threw PlayRejected
   \<and> generateStoryVideo rejectingEnv clipStory None []
       = ([fillBlack 1280 720, RecorderStart (recorderOptions (isTypeSupported rejectingEnv)),
           OnProgress 0 (LoadingAsset 1),
           OnProgress 20 (RecordingScene 1),
           SetCurrentTime0 (HTMLVideoElement 1280 720 (Fin 4)),
           Play (HTMLVideoElement 1280 720 (Fin 4)),
           ConsoleError PlayRejected, RecorderStop, AudioClose],
          Threw PlayRejected)
   \<and> snd (exportBody plainEnv oneSceneStory None (canvasWidth oneSceneStory)
            (canvasHeight oneSceneStory) [0, 3, 3, 5]) = Done []
   \<and> snd (generateStoryVideo plainEnv oneSceneStory None [0, 3, 3, 5])
       = Done \<lparr> parts = [4096], blobType = ''video/mp4'' \<rparr>"
proof -
  have size: "canvasWidth oneSceneStory = 1280" "canvasHeight oneSceneStory = 720"
    by (simp_all add: canvasWidth_def canvasHeight_def oneSceneStory_def)
  from C2_cleanup_and_rethrow [of rejectingEnv clipStory None "[]" PlayRejected]
       C2_cleanup_and_rethrow [of plainEnv oneSceneStory None "[0, 3, 3, 5]" _ "[]"]
  show ?thesis
    by (simp add: clipStory_size body_rejected size body_one plainEnv_fields
        selectMimeType_def mp4_avc_def mp4_generic_def)
qed

subsection \<open>Transition mode and duration\<close>

lemma arrayGet_map: "arrayGet (map f xs) i = (if i < length xs then Some (f (xs ! i)) else None)"
  by (simp add: arrayGet_def)

lemma loadTransitionAsset_Some_iff:
  "loadTransitionAsset e sc \<noteq> None
     \<longleftrightarrow> (\<exists>url. transitionVideoUrl sc = Some url \<and> url \<noteq> [] \<and> loadVideo e url \<noteq> None)"
  by (auto simp add: loadTransitionAsset_def split: option.splits)

text \<open>
  C3 as stated fails: the scene has a transition clip set, the clip does not load, and the
  transition draws the synthesized slide (its frame starts by clearing the canvas).  And a
  clip whose duration is 0 gets a transition of 2.0 seconds.
\<close>

theorem C3_counterexample:
  "transitionVideoUrl clipScene = Some ''blob:transition1''
   \<and> loadTransitionAsset offlineEnv clipScene = None
   \<and> drawn (fst (transitionSegment offlineEnv 1280 720
                   (Some (HTMLImageElement 1024 1024)) (Some (HTMLImageElement 1024 1024))
                   (loadTransitionAsset offlineEnv clipScene) [0, 1 / 2, 1]))
       = [fst (drawCinematicTransition (Some (HTMLImageElement 1024 1024))
                 (Some (HTMLImageElement 1024 1024)) 1280 720 (easeInOutCubic (1 / 2)))]
   \<and> hd (fst (drawCinematicTransition (Some (HTMLImageElement 1024 1024))
                 (Some (HTMLImageElement 1024 1024)) 1280 720 (easeInOutCubic (1 / 2))))
       = ClearRect 0 0 1280 720
   \<and> clipDuration (HTMLVideoElement 1280 720 (Fin 0)) = Fin 2"
proof -
  have none: "loadTransitionAsset offlineEnv clipScene = None"
    by (simp add: loadTransitionAsset_def offlineEnv_def clipScene_fields)
  have frames: "drawn (fst (transitionSegment offlineEnv 1280 720
                   (Some (HTMLImageElement 1024 1024)) (Some (HTMLImageElement 1024 1024))
                   None [0, 1 / 2, 1]))
       = [fst (drawCinematicTransition (Some (HTMLImageElement 1024 1024))
                 (Some (HTMLImageElement 1024 1024)) 1280 720 (easeInOutCubic (1 / 2)))]"
    by (simp add: drawn_transitionSegment_canvas transitionDuration_def)
  have first: "hd (fst (drawCinematicTransition (Some (HTMLImageElement 1024 1024))
                 (Some (HTMLImageElement 1024 1024)) 1280 720 (easeInOutCubic (1 / 2))))
       = ClearRect 0 0 1280 720"
    by (simp add: drawCinematicTransition_def Let_def seqOps_def)
  show ?thesis
    unfolding none using frames first by (simp add: clipScene_fields)
qed

text \<open>
  C3, amended.  The transition after scene i uses the entry i of the transition assets, which
  is the clip of scene i when its URL is set and non-empty and the clip loaded, and nothing
  otherwise; scene i has a next asset exactly when i + 1 is below the number of scenes.
  With a loaded clip whose \<open>play()\<close> succeeds, every frame of the transition is the clip
  drawn by \<open>drawAsset\<close> at scale 1.0, one frame for each clock reading up to the first at
  which the elapsed time reaches the clip's duration; the duration is taken as it is when it
  is not 0 and not NaN, and is 2.0 seconds when it is 0 or NaN.  Without a loaded clip,
  every frame is the synthesized slide at the eased progress, one frame for each clock reading
  up to the first at which the elapsed time reaches 1.0 second.
\<close>

theorem C3_transition_mode:
  "(i < length scs \<longrightarrow>
      arrayGet (snd (snd (loadAssets e scs [0..<length scs] [] []))) i
        = Some (loadTransitionAsset e (scs ! i))
      \<and> (arrayGet (fst (snd (loadAssets e scs [0..<length scs] [] []))) (i + 1) \<noteq> None
           \<longleftrightarrow> i + 1 < length scs))
   \<and> (loadTransitionAsset e sc \<noteq> None
        \<longleftrightarrow> (\<exists>url. transitionVideoUrl sc = Some url \<and> url \<noteq> [] \<and> loadVideo e url \<noteq> None))
   \<and> (play e tv = None \<longrightarrow>
        drawn (fst (transitionSegment e w h cur (Some nxt) (Some tv) (t0 # clk)))
          = map (\<lambda>now. fst (drawAsset (Some tv) w h 1.0))
              (takeWhile (\<lambda>now. \<not> js_ge (Fin (now - t0)) (clipDuration tv)) clk))
   \<and> (d \<noteq> 0 \<longrightarrow> clipDuration (HTMLVideoElement vw vh (Fin d)) = Fin d)
   \<and> clipDuration (HTMLVideoElement vw vh (Fin 0)) = Fin 2.0
   \<and> clipDuration (HTMLVideoElement vw vh NaN) = Fin 2.0
   \<and> drawn (fst (transitionSegment e w h (Some c) (Some nxt) None (t0 # clk)))
       = map (\<lambda>now. fst (drawCinematicTransition (Some c) (Some nxt) w h
                            (easeInOutCubic ((now - t0) / 1.0))))
           (takeWhile (\<lambda>now. now - t0 < 1.0) clk)"
proof -
  have arrays: "i < length scs \<longrightarrow>
      arrayGet (snd (snd (loadAssets e scs [0..<length scs] [] []))) i
        = Some (loadTransitionAsset e (scs ! i))
      \<and> (arrayGet (fst (snd (loadAssets e scs [0..<length scs] [] []))) (i + 1) \<noteq> None
           \<longleftrightarrow> i + 1 < length scs)"
    by (simp add: loaded_arrays arrayGet_map)
  have clip: "play e tv = None \<longrightarrow>
        drawn (fst (transitionSegment e w h cur (Some nxt) (Some tv) (t0 # clk)))
          = map (\<lambda>now. fst (drawAsset (Some tv) w h 1.0))
              (takeWhile (\<lambda>now. \<not> js_ge (Fin (now - t0)) (clipDuration tv)) clk)"
    using drawn_transitionSegment_clip [of e tv w h cur nxt t0 clk] by blast
  have synth: "drawn (fst (transitionSegment e w h (Some c) (Some nxt) None (t0 # clk)))
       = map (\<lambda>now. fst (drawCinematicTransition (Some c) (Some nxt) w h
                            (easeInOutCubic ((now - t0) / 1.0))))
           (takeWhile (\<lambda>now. now - t0 < 1.0) clk)"
    using drawn_transitionSegment_canvas [of e w h c nxt t0 clk]
    by (simp add: transitionDuration_def)
  have dur: "d \<noteq> 0 \<longrightarrow> clipDuration (HTMLVideoElement vw vh (Fin d)) = Fin d"
    "clipDuration (HTMLVideoElement vw vh (Fin 0)) = Fin 2.0"
    "clipDuration (HTMLVideoElement vw vh NaN) = Fin 2.0"
    by simp_all
  show ?thesis
    using arrays loadTransitionAsset_Some_iff [of e sc] clip dur synth by (intro conjI)
qed

text \<open>A clip of 4 seconds sampled at 0.5 and 1 second; a slide sampled at 0.5 seconds.\<close>

theorem C3_transition_mode_witness:
  "(0 :: nat) < length [clipScene, imageScene]
   \<and> arrayGet (snd (snd (loadAssets plainEnv [clipScene, imageScene]
                           [0..<length [clipScene, imageScene]] [] []))) 0
       = Some (Some (HTMLVideoElement 1280 720 (Fin 4)))
   \<and> loadTransitionAsset plainEnv clipScene \<noteq> None
   \<and> play plainEnv (HTMLVideoElement 1280 720 (Fin 4)) = None
   \<and> drawn (fst (transitionSegment plainEnv 1280 720 (Some (HTMLImageElement 1024 1024))
                   (Some (HTMLImageElement 1024 1024)) (Some (HTMLVideoElement 1280 720 (Fin 4)))
                   [0, 1 / 2, 1, 5]))
       = [[DrawImage (HTMLVideoElement 1280 720 (Fin 4)) (Fin 0) (Fin 0) (Fin 1280) (Fin 720)],
          [DrawImage (HTMLVideoElement 1280 720 (Fin 4)) (Fin 0) (Fin 0) (Fin 1280) (Fin 720)]]
   \<and> clipDuration (HTMLVideoElement 1280 720 (Fin 4)) = Fin 4
   \<and> drawn (fst (transitionSegment plainEnv 1280 720 (Some (HTMLImageElement 1024 1024))
                   (Some (HTMLImageElement 1024 1024)) None [0, 1 / 2, 1, 5]))
       = [fst (drawCinematicTransition (Some (HTMLImageElement 1024 1024))
                 (Some (HTMLImageElement 1024 1024)) 1280 720 (easeInOutCubic (1 / 2)))]"
proof -
  have load: "loadTransitionAsset plainEnv clipScene = Some (HTMLVideoElement 1280 720 (Fin 4))"
    by (simp add: loadTransitionAsset_def plainEnv_fields clipScene_fields)
  have frame: "fst (drawAsset (Some (HTMLVideoElement 1280 720 (Fin 4))) 1280 720 1)
      = [DrawImage (HTMLVideoElement 1280 720 (Fin 4)) (Fin 0) (Fin 0) (Fin 1280) (Fin 720)]"
    by (simp add: drawAsset_def Let_def)
  from C3_transition_mode [where i = 0 and scs = "[clipScene, imageScene]" and e = plainEnv
      and sc = clipScene and tv = "HTMLVideoElement 1280 720 (Fin 4)" and w = 1280 and h = 720
      and cur = "Some (HTMLImageElement 1024 1024)" and nxt = "HTMLImageElement 1024 1024"
      and ?t0.0 = 0 and clk = "[1 / 2, 1, 5]" and d = 4 and vw = 1280 and vh = 720
      and c = "HTMLImageElement 1024 1024"]
  show ?thesis
    by (simp add: load frame plainEnv_fields)
qed

lemma renderLoop_outroFrame:
  "renderLoop stop (outroFrame (Some a) w h) t0 clock =
     (concat (map (\<lambda>now. [Draw (fst (outroFrame (Some a) w h (now - t0))), Wait FRAME_INTERVAL])
                  (takeWhile (\<lambda>now. \<not> stop (now - t0)) clock)),
      case dropWhile (\<lambda>now. \<not> stop (now - t0)) clock of
        [] \<Rightarrow> Stalled
      | now # rest \<Rightarrow> Done rest)"
  by (rule renderLoop_no_throw) (simp add: outroFrame_Some)

lemma andThen_readClock: "andThen (readClock (t0 # clk)) k = k (t0, clk)"
  by (cases "k (t0, clk)") (simp add: andThen_def readClock_def)

lemma outroSegment_run:
  assumes "va \<noteq> []"
  shows "fst (outroSegment w h va (t0 # clk)) =
           OnProgress 99 Finishing
           # concat (map (\<lambda>now. [Draw (fst (outroFrame (Some (last va)) w h (now - t0))),
                                  Wait FRAME_INTERVAL])
                 (takeWhile (\<lambda>now. now - t0 < 1.5) clk))
           @ (if \<exists>now \<in> set clk. 1.5 \<le> now - t0 then [fillBlack w h, Wait 500] else [])"
proof -
  let ?P = "\<lambda>now. \<not> (now - t0) / fadeDuration \<ge> 1"
  let ?frames = "concat (map (\<lambda>now. [Draw (fst (outroFrame (Some (last va)) w h (now - t0))),
                                  Wait FRAME_INTERVAL]) (takeWhile ?P clk))"
  define loop where
    "loop = renderLoop (\<lambda>tElapsed. tElapsed / fadeDuration \<ge> 1) (outroFrame (Some (last va)) w h) t0 clk"
  have lastAsset: "(if va = [] then None else arrayGet va (length va - 1)) = Some (last va)"
    using assms by (simp add: arrayGet_def last_conv_nth)
  have P: "?P = (\<lambda>now. now - t0 < 1.5)"
    by (rule ext) (simp add: fadeDuration_def not_le)
  have loop_eq: "loop = (?frames, case dropWhile ?P clk of [] \<Rightarrow> Stalled | now # rest \<Rightarrow> Done rest)"
    unfolding loop_def by (rule renderLoop_outroFrame)
  have seg: "outroSegment w h va (t0 # clk)
      = andThen (emit [OnProgress 99 Finishing]) (\<lambda>_.
          andThen loop (\<lambda>clock. ([fillBlack w h, Wait 500], Done clock)))"
    unfolding outroSegment_def Let_def lastAsset loop_def
    by (simp add: andThen_readClock)
  have fst_seg: "fst (outroSegment w h va (t0 # clk))
      = OnProgress 99 Finishing # fst loop
        @ (case snd loop of Done c \<Rightarrow> [fillBlack w h, Wait 500] | Threw err \<Rightarrow> [] | Stalled \<Rightarrow> [])"
    unfolding seg by (simp add: fst_andThen snd_andThen emit_def split: outcome.splits)
  have tail: "(case snd loop of Done c \<Rightarrow> [fillBlack w h, Wait 500] | Threw err \<Rightarrow> [] | Stalled \<Rightarrow> [])
      = (if \<exists>now \<in> set clk. \<not> ?P now then [fillBlack w h, Wait 500] else [])"
  proof (cases "dropWhile ?P clk")
    case Nil
    then have "\<forall>now \<in> set clk. ?P now"
      using dropWhile_eq_Nil_conv [of ?P clk] by blast
    then show ?thesis unfolding loop_eq snd_conv Nil by auto
  next
    case (Cons now rest)
    then have "dropWhile ?P clk \<noteq> []" by simp
    then have "\<not> (\<forall>now \<in> set clk. ?P now)"
      using dropWhile_eq_Nil_conv [of ?P clk] by blast
    then have "\<exists>now \<in> set clk. \<not> ?P now" by blast
    then show ?thesis unfolding loop_eq snd_conv Cons by auto
  qed
  have not_P: "(\<lambda>now. \<not> ?P now) = (\<lambda>now. 1.5 \<le> now - t0)"
    by (rule ext) (simp add: fadeDuration_def)
  have ex: "(\<exists>now \<in> set clk. \<not> ?P now) = (\<exists>now \<in> set clk. 1.5 \<le> now - t0)"
    by (simp add: fadeDuration_def)
  have fst_loop: "fst loop = ?frames" by (simp add: loop_eq)
  show ?thesis
    unfolding fst_seg tail fst_loop ex unfolding P by (rule refl)
qed

text \<open>
  C5 as stated fails for still images.  An odd-indexed last scene ends near scale 1.10 (below
  1.12 at 2.9 of 3 seconds), yet the first outro frame draws it at 1.25; an even-indexed one
  ends at 1.25, yet the outro does not hold that scale: half-way it draws at 1.275.
\<close>

theorem C5_counterexample:
  "currentScale 1 1 = 1.10
   \<and> sceneScale (Some (HTMLImageElement 1280 720)) 1 (29 / 10) 3 < 1.12
   \<and> outroFrame (Some (HTMLImageElement 1280 720)) 1280 720 0
       = ([DrawImage (HTMLImageElement 1280 720) (Fin (- 160)) (Fin (- 90)) (Fin 1600) (Fin 900),
           SetFillStyle (Rgba0 0), FillRect 0 0 1280 720], None)
   \<and> fst (drawAsset (Some (HTMLImageElement 1280 720)) 1280 720 1.25)
       = [DrawImage (HTMLImageElement 1280 720) (Fin (- 160)) (Fin (- 90)) (Fin 1600) (Fin 900)]
   \<and> currentScale 0 1 = 1.25
   \<and> outroFrame (Some (HTMLImageElement 1280 720)) 1280 720 (3 / 4)
       = ([DrawImage (HTMLImageElement 1280 720) (Fin (- 176)) (Fin (- 99)) (Fin 1632) (Fin 918),
           SetFillStyle (Rgba0 (1 / 2)), FillRect 0 0 1280 720], None)
   \<and> fst (drawAsset (Some (HTMLImageElement 1280 720)) 1280 720 1.275)
       = [DrawImage (HTMLImageElement 1280 720) (Fin (- 176)) (Fin (- 99)) (Fin 1632) (Fin 918)]"
proof -
  have "\<bar>breathing (29 / 10)\<bar> \<le> 0.005" by (rule abs_breathing)
  then have "sceneScale (Some (HTMLImageElement 1280 720)) 1 (29 / 10) 3 < 1.12"
    by (simp add: sceneScale_def currentScale_def Let_def)
  then show ?thesis
    by (simp add: currentScale_def Let_def outroFrame_Some drawAsset_def)
qed

text \<open>
  C5, amended.  Each outro frame draws the last asset, a video clip at scale 1.0 (the scale of
  its scene segment) and a still image at scale 1.25 + 0.05 p, which starts at the scale 1.25
  at which an even-indexed image scene ends, and then fills the canvas with black of alpha
  p = elapsed / 1.5.  With at least one scene, frames are drawn at every clock reading before
  the first at which 1.5 seconds have elapsed; once that is reached the canvas is filled with
  solid black and held for 500 milliseconds.
\<close>

theorem C5_outro:
  "outroFrame (Some a) w h tElapsed
     = (fst (drawAsset (Some a) w h
               (if isVideo (Some a) then 1.0 else 1.25 + ((tElapsed / 1.5) * 0.05)))
          @ [SetFillStyle (Rgba0 (tElapsed / 1.5)), FillRect 0 0 w h],
        None)
   \<and> (va \<noteq> [] \<longrightarrow>
        fst (outroSegment w h va (t0 # clk)) =
           OnProgress 99 Finishing
           # concat (map (\<lambda>now. [Draw (fst (outroFrame (Some (last va)) w h (now - t0))),
                                  Wait FRAME_INTERVAL])
                 (takeWhile (\<lambda>now. now - t0 < 1.5) clk))
           @ (if \<exists>now \<in> set clk. 1.5 \<le> now - t0 then [fillBlack w h, Wait 500] else []))
   \<and> fillBlack w h = Draw [SetFillStyle Black, FillRect 0 0 w h]
   \<and> sceneScale (Some (HTMLVideoElement vw vh d)) i elapsed dur = 1.0
   \<and> currentScale (2 * k) 1 = 1.25 + ((0 / 1.5) * 0.05)"
proof -
  have frame: "outroFrame (Some a) w h tElapsed
     = (fst (drawAsset (Some a) w h
               (if isVideo (Some a) then 1.0 else 1.25 + ((tElapsed / 1.5) * 0.05)))
          @ [SetFillStyle (Rgba0 (tElapsed / 1.5)), FillRect 0 0 w h],
        None)"
    by (rule outroFrame_Some)
  have seg: "va \<noteq> [] \<longrightarrow>
        fst (outroSegment w h va (t0 # clk)) =
           OnProgress 99 Finishing
           # concat (map (\<lambda>now. [Draw (fst (outroFrame (Some (last va)) w h (now - t0))),
                                  Wait FRAME_INTERVAL])
                 (takeWhile (\<lambda>now. now - t0 < 1.5) clk))
           @ (if \<exists>now \<in> set clk. 1.5 \<le> now - t0 then [fillBlack w h, Wait 500] else [])"
    using outroSegment_run [of va w h t0 clk] by (rule impI)
  have black: "fillBlack w h = Draw [SetFillStyle Black, FillRect 0 0 w h]"
    by (simp add: fillBlack_def)
  have video: "sceneScale (Some (HTMLVideoElement vw vh d)) i elapsed dur = 1.0"
    by (simp add: sceneScale_def)
  have even: "currentScale (2 * k) 1 = 1.25 + ((0 / 1.5) * 0.05)"
    by (simp add: currentScale_def Let_def)
  show ?thesis
    using frame seg black video even by (intro conjI)
qed

lemma outro_frames:
  "fst (outroFrame (Some (HTMLImageElement 1280 720)) 1280 720 (10 - 10))
     = [DrawImage (HTMLImageElement 1280 720) (Fin (- 160)) (Fin (- 90)) (Fin 1600) (Fin 900),
        SetFillStyle (Rgba0 0), FillRect 0 0 1280 720]"
  "fst (outroFrame (Some (HTMLImageElement 1280 720)) 1280 720 (10 + 3 / 4 - 10))
     = [DrawImage (HTMLImageElement 1280 720) (Fin (- 176)) (Fin (- 99)) (Fin 1632) (Fin 918),
        SetFillStyle (Rgba0 (1 / 2)), FillRect 0 0 1280 720]"
  by (simp_all add: outroFrame_Some drawAsset_def Let_def)

text \<open>One 1280 by 720 image: frames at 0 and 0.75 seconds, then black.\<close>

theorem C5_outro_witness:
  "[HTMLImageElement 1280 720] \<noteq> []
   \<and> fst (outroSegment 1280 720 [HTMLImageElement 1280 720] [10, 10, 10 + 3 / 4, 10 + 3 / 2])
       = [OnProgress 99 Finishing,
          Draw [DrawImage (HTMLImageElement 1280 720) (Fin (- 160)) (Fin (- 90)) (Fin 1600) (Fin 900),
                SetFillStyle (Rgba0 0), FillRect 0 0 1280 720],
          Wait FRAME_INTERVAL,
          Draw [DrawImage (HTMLImageElement 1280 720) (Fin (- 176)) (Fin (- 99)) (Fin 1632) (Fin 918),
                SetFillStyle (Rgba0 (1 / 2)), FillRect 0 0 1280 720],
          Wait FRAME_INTERVAL,
          Draw [SetFillStyle Black, FillRect 0 0 1280 720],
          Wait 500]"
proof -
  have ne: "[HTMLImageElement 1280 720] \<noteq> []" by simp
  have "fst (outroSegment 1280 720 [HTMLImageElement 1280 720] (10 # [10, 10 + 3 / 4, 10 + 3 / 2]))
      = OnProgress 99 Finishing
        # concat (map (\<lambda>now. [Draw (fst (outroFrame (Some (last [HTMLImageElement 1280 720]))
                                        1280 720 (now - 10))), Wait FRAME_INTERVAL])
              (takeWhile (\<lambda>now. now - 10 < 1.5) [10, 10 + 3 / 4, 10 + 3 / 2]))
        @ (if \<exists>now \<in> set [10, 10 + 3 / 4, 10 + 3 / 2 :: real]. 1.5 \<le> now - 10
           then [fillBlack 1280 720, Wait 500] else [])"
    using C5_outro [of "HTMLImageElement 1280 720" 1280 720 0 "[HTMLImageElement 1280 720]" 10
        "[10, 10 + 3 / 4, 10 + 3 / 2]"] ne
    by blast
  also have "\<dots> = [OnProgress 99 Finishing,
          Draw [DrawImage (HTMLImageElement 1280 720) (Fin (- 160)) (Fin (- 90)) (Fin 1600) (Fin 900),
                SetFillStyle (Rgba0 0), FillRect 0 0 1280 720],
          Wait FRAME_INTERVAL,
          Draw [DrawImage (HTMLImageElement 1280 720) (Fin (- 176)) (Fin (- 99)) (Fin 1632) (Fin 918),
                SetFillStyle (Rgba0 (1 / 2)), FillRect 0 0 1280 720],
          Wait FRAME_INTERVAL,
          Draw [SetFillStyle Black, FillRect 0 0 1280 720],
          Wait 500]"
  proof -
    have ex: "\<exists>now \<in> set [10, 10 + 3 / 4, 10 + 3 / 2 :: real]. 1.5 \<le> now - 10"
      by (rule bexI [of _ "10 + 3 / 2"]) simp_all
    show ?thesis
      unfolding if_P [OF ex] using outro_frames by (simp add: fillBlack_def)
  qed
  finally show ?thesis using ne by simp
qed


subsection \<open>Scene frames\<close>

lemma sceneFrame_Some:
  "sceneFrame e w h sc i (Some a) dur elapsed =
     ([ClearRect 0 0 w h]
      @ fst (drawAsset (Some a) w h (sceneScale (Some a) i elapsed dur))
      @ drawSubtitles (measureText e) (narration sc) w h (min (elapsed * 2) 1),
      None)"
  by (simp add: sceneFrame_def Let_def seqOps_no_throw drawAsset_Some_no_throw)

lemma renderLoop_sceneFrame:
  "renderLoop stop (sceneFrame e w h sc i (Some a) dur) t0 clock =
     (concat (map (\<lambda>now. [Draw (fst (sceneFrame e w h sc i (Some a) dur (now - t0))),
                            Wait FRAME_INTERVAL])
                  (takeWhile (\<lambda>now. \<not> stop (now - t0)) clock)),
      case dropWhile (\<lambda>now. \<not> stop (now - t0)) clock of
        [] \<Rightarrow> Stalled
      | now # rest \<Rightarrow> Done rest)"
  by (rule renderLoop_no_throw) (simp add: sceneFrame_Some)

lemma drawn_sceneIteration:
  assumes cur: "arrayGet va i = Some a"
    and nxt: "arrayGet va (i + 1) = None"
    and played: "isVideo (Some a) \<longrightarrow> play e a = None"
  shows "drawn (fst (sceneIteration e w h scs va ta i (t0 # clk)))
           = map (\<lambda>now. fst (sceneFrame e w h (scs ! i) i (Some a)
                                (sceneDuration (prepareAudio (decodeAudioData e) (scs ! i)))
                                (now - t0)))
               (takeWhile (\<lambda>now. now - t0 < sceneDuration (prepareAudio (decodeAudioData e) (scs ! i)))
                  clk)"
proof -
  let ?sc = "scs ! i"
  let ?dur = "sceneDuration (prepareAudio (decodeAudioData e) ?sc)"
  let ?not_over = "\<lambda>now. \<not> now - t0 \<ge> ?dur"
  let ?frames = "concat (map (\<lambda>now. [Draw (fst (sceneFrame e w h ?sc i (Some a) ?dur (now - t0))),
                            Wait FRAME_INTERVAL]) (takeWhile ?not_over clk))"
  define startAudio where
    "startAudio = emit ([OnProgress (20 + (real i / real (length scs)) * 70) (RecordingScene (i + 1))]
         @ (case prepareAudio (decodeAudioData e) ?sc of Some buf \<Rightarrow> [SourceStart buf] | None \<Rightarrow> []))"
  define startVideo where
    "startVideo = (if isVideo (Some a) then awaitPlay e a else emit [])"
  define stopAudio where
    "stopAudio = emit (case prepareAudio (decodeAudioData e) ?sc of Some buf \<Rightarrow> [SourceStop] | None \<Rightarrow> [])"
  define loop where
    "loop = renderLoop (\<lambda>elapsed. elapsed \<ge> ?dur) (sceneFrame e w h ?sc i (Some a) ?dur) t0 clk"
  have iteration: "sceneIteration e w h scs va ta i (t0 # clk)
      = andThen startAudio (\<lambda>_. andThen startVideo (\<lambda>_.
          andThen loop (\<lambda>clock. andThen stopAudio (\<lambda>_. ([], Done clock)))))"
    unfolding sceneIteration_def Let_def cur nxt startAudio_def startVideo_def stopAudio_def loop_def
    by (simp add: andThen_readClock transitionSegment_def)
  have a1: "snd startAudio = Done ()" "drawn (fst startAudio) = []"
    by (simp_all add: startAudio_def emit_def split: option.splits)
  have a2: "snd startVideo = Done ()" "drawn (fst startVideo) = []"
    using played by (simp_all add: startVideo_def emit_def awaitPlay_def)
  have a3: "drawn (fst stopAudio) = []"
    by (simp add: stopAudio_def emit_def split: option.splits)
  have loop_eq: "fst loop = ?frames"
    unfolding loop_def by (simp add: renderLoop_sceneFrame)
  have "drawn (fst (sceneIteration e w h scs va ta i (t0 # clk))) = drawn (fst loop)"
    unfolding iteration
    by (simp add: fst_andThen snd_andThen drawn_append a1 a2 a3 split: outcome.splits)
  also have "\<dots> = map (\<lambda>now. fst (sceneFrame e w h ?sc i (Some a) ?dur (now - t0)))
                      (takeWhile ?not_over clk)"
    unfolding loop_eq by (rule drawn_frames)
  finally show ?thesis by (simp add: not_le)
qed

text \<open>
  C4.  Ignoring the breathing term, which stays within 0.005 of zero, the Ken Burns scale is
  1.10 + 0.15 p for an even scene index (1.10 at p = 0, 1.25 at p = 1) and 1.25 - 0.15 p for
  an odd one.  A frame of a still-image scene clears the canvas, draws the image by
  \<open>drawAsset\<close> at that scale plus breathing, with p the elapsed time over the scene's
  duration, and draws the subtitles; a frame of a video-clip scene draws the clip at scale
  1.0.  These are the frames of a scene in the main loop: one for each clock reading before the
  first at which the scene's duration has elapsed.
\<close>

theorem C4_ken_burns_scale:
  "currentScale i p = (if even i then 1.10 + 0.15 * p else 1.25 - 0.15 * p)
   \<and> currentScale (2 * k) 0 = 1.10 \<and> currentScale (2 * k) 1 = 1.25
   \<and> currentScale (2 * k + 1) 0 = 1.25 \<and> currentScale (2 * k + 1) 1 = 1.10
   \<and> \<bar>breathing elapsed\<bar> \<le> 0.005
   \<and> sceneFrame e w h sc i (Some (HTMLImageElement iw ih)) dur elapsed
       = ([ClearRect 0 0 w h]
          @ fst (drawAsset (Some (HTMLImageElement iw ih)) w h
                   (currentScale i (elapsed / dur) + breathing elapsed))
          @ drawSubtitles (measureText e) (narration sc) w h (min (elapsed * 2) 1),
          None)
   \<and> sceneFrame e w h sc i (Some (HTMLVideoElement vw vh d)) dur elapsed
       = ([ClearRect 0 0 w h]
          @ fst (drawAsset (Some (HTMLVideoElement vw vh d)) w h 1.0)
          @ drawSubtitles (measureText e) (narration sc) w h (min (elapsed * 2) 1),
          None)
   \<and> (arrayGet va i = Some a \<and> arrayGet va (i + 1) = None \<and> (isVideo (Some a) \<longrightarrow> play e a = None)
        \<longrightarrow> drawn (fst (sceneIteration e w h scs va ta i (t0 # clk)))
             = map (\<lambda>now. fst (sceneFrame e w h (scs ! i) i (Some a)
                                  (sceneDuration (prepareAudio (decodeAudioData e) (scs ! i)))
                                  (now - t0)))
                 (takeWhile (\<lambda>now. now - t0 < sceneDuration (prepareAudio (decodeAudioData e) (scs ! i)))
                    clk))"
proof -
  have scale: "currentScale i p = (if even i then 1.10 + 0.15 * p else 1.25 - 0.15 * p)"
    "currentScale (2 * k) 0 = 1.10" "currentScale (2 * k) 1 = 1.25"
    "currentScale (2 * k + 1) 0 = 1.25" "currentScale (2 * k + 1) 1 = 1.10"
    by (simp_all add: currentScale_def Let_def even_iff_mod_2_eq_zero)
  have still: "sceneFrame e w h sc i (Some (HTMLImageElement iw ih)) dur elapsed
       = ([ClearRect 0 0 w h]
          @ fst (drawAsset (Some (HTMLImageElement iw ih)) w h
                   (currentScale i (elapsed / dur) + breathing elapsed))
          @ drawSubtitles (measureText e) (narration sc) w h (min (elapsed * 2) 1),
          None)"
    unfolding sceneFrame_Some by (simp add: sceneScale_def)
  have clip: "sceneFrame e w h sc i (Some (HTMLVideoElement vw vh d)) dur elapsed
       = ([ClearRect 0 0 w h]
          @ fst (drawAsset (Some (HTMLVideoElement vw vh d)) w h 1.0)
          @ drawSubtitles (measureText e) (narration sc) w h (min (elapsed * 2) 1),
          None)"
    unfolding sceneFrame_Some by (simp add: sceneScale_def)
  have frames: "arrayGet va i = Some a \<and> arrayGet va (i + 1) = None
          \<and> (isVideo (Some a) \<longrightarrow> play e a = None)
        \<longrightarrow> drawn (fst (sceneIteration e w h scs va ta i (t0 # clk)))
             = map (\<lambda>now. fst (sceneFrame e w h (scs ! i) i (Some a)
                                  (sceneDuration (prepareAudio (decodeAudioData e) (scs ! i)))
                                  (now - t0)))
                 (takeWhile (\<lambda>now. now - t0 < sceneDuration (prepareAudio (decodeAudioData e) (scs ! i)))
                    clk)"
    using drawn_sceneIteration [of va i a e w h scs ta t0 clk] by blast
  show ?thesis
    using scale abs_breathing [of elapsed] still clip frames by (intro conjI)
qed

lemma imageScene_duration:
  "sceneDuration (prepareAudio dec imageScene) = 3"
  by (simp add: sceneDuration_def prepareAudio_def imageScene_fields)

text \<open>The first frame of an even-indexed image scene, of an odd-indexed image scene and of a
  video-clip scene, each on the wide canvas with a 1280 by 720 asset.\<close>

theorem C4_ken_burns_scale_witness:
  "drawn (fst (sceneIteration plainEnv 1280 720 [imageScene] [HTMLImageElement 1280 720] [None] 0
                 [5, 5, 8]))
     = [[ClearRect 0 0 1280 720,
         DrawImage (HTMLImageElement 1280 720) (Fin (- 64)) (Fin (- 36)) (Fin 1408) (Fin 792)]
        @ drawSubtitles (fixedPitch 36) [] 1280 720 0]
   \<and> drawn (fst (sceneIteration plainEnv 1280 720 [imageScene, imageScene]
                 [HTMLImageElement 1280 720, HTMLImageElement 1280 720] [None, None] 1 [5, 5, 8]))
     = [[ClearRect 0 0 1280 720,
         DrawImage (HTMLImageElement 1280 720) (Fin (- 160)) (Fin (- 90)) (Fin 1600) (Fin 900)]
        @ drawSubtitles (fixedPitch 36) [] 1280 720 0]
   \<and> drawn (fst (sceneIteration plainEnv 1280 720 [imageScene] [HTMLVideoElement 1280 720 (Fin 4)]
                 [None] 0 [5, 5, 8]))
     = [[ClearRect 0 0 1280 720,
         DrawImage (HTMLVideoElement 1280 720 (Fin 4)) (Fin 0) (Fin 0) (Fin 1280) (Fin 720)]
        @ drawSubtitles (fixedPitch 36) [] 1280 720 0]"
proof -
  have even: "drawn (fst (sceneIteration plainEnv 1280 720 [imageScene] [HTMLImageElement 1280 720]
                 [None] 0 [5, 5, 8]))
     = [[ClearRect 0 0 1280 720,
         DrawImage (HTMLImageElement 1280 720) (Fin (- 64)) (Fin (- 36)) (Fin 1408) (Fin 792)]
        @ drawSubtitles (fixedPitch 36) [] 1280 720 0]"
    using C4_ken_burns_scale [where e = plainEnv and w = 1280 and h = 720 and sc = imageScene
        and i = 0 and iw = 1280 and ih = 720 and dur = 3 and elapsed = 0
        and va = "[HTMLImageElement 1280 720]" and a = "HTMLImageElement 1280 720"
        and scs = "[imageScene]" and ta = "[None]" and ?t0.0 = 5 and clk = "[5, 8]"]
    by (simp add: arrayGet_def imageScene_duration imageScene_fields plainEnv_fields
        currentScale_def breathing_def drawAsset_def Let_def)
  have odd: "drawn (fst (sceneIteration plainEnv 1280 720 [imageScene, imageScene]
                 [HTMLImageElement 1280 720, HTMLImageElement 1280 720] [None, None] 1 [5, 5, 8]))
     = [[ClearRect 0 0 1280 720,
         DrawImage (HTMLImageElement 1280 720) (Fin (- 160)) (Fin (- 90)) (Fin 1600) (Fin 900)]
        @ drawSubtitles (fixedPitch 36) [] 1280 720 0]"
    using C4_ken_burns_scale [where e = plainEnv and w = 1280 and h = 720 and sc = imageScene
        and i = 1 and iw = 1280 and ih = 720 and dur = 3 and elapsed = 0
        and va = "[HTMLImageElement 1280 720, HTMLImageElement 1280 720]"
        and a = "HTMLImageElement 1280 720"
        and scs = "[imageScene, imageScene]" and ta = "[None, None]" and ?t0.0 = 5 and clk = "[5, 8]"]
    by (simp add: arrayGet_def imageScene_duration imageScene_fields plainEnv_fields
        currentScale_def breathing_def drawAsset_def Let_def)
  have video: "drawn (fst (sceneIteration plainEnv 1280 720 [imageScene]
                 [HTMLVideoElement 1280 720 (Fin 4)] [None] 0 [5, 5, 8]))
     = [[ClearRect 0 0 1280 720,
         DrawImage (HTMLVideoElement 1280 720 (Fin 4)) (Fin 0) (Fin 0) (Fin 1280) (Fin 720)]
        @ drawSubtitles (fixedPitch 36) [] 1280 720 0]"
    using C4_ken_burns_scale [where e = plainEnv and w = 1280 and h = 720 and sc = imageScene
        and i = 0 and vw = 1280 and vh = 720 and d = "Fin 4" and dur = 3 and elapsed = 0
        and va = "[HTMLVideoElement 1280 720 (Fin 4)]" and a = "HTMLVideoElement 1280 720 (Fin 4)"
        and scs = "[imageScene]" and ta = "[None]" and ?t0.0 = 5 and clk = "[5, 8]"]
    by (simp add: arrayGet_def imageScene_duration imageScene_fields plainEnv_fields
        drawAsset_def Let_def)
  from even odd video show ?thesis by (intro conjI)
qed

end
